theory Spec2Isabelle
  imports Complex_Main "HOL-Library.Word"
begin

section \<open>Raydium CPMM quoting and swap assembly (src/lib/raydiumCpmm.ts)\<close>

text \<open>
  A shallow embedding of \<^verbatim>\<open>src/lib/raydiumCpmm.ts\<close>. Every \<^verbatim>\<open>throw\<close> of the source and of
  the library calls it makes is a value \<open>Inl e\<close> of the result type \<open>error + 'a\<close>.
  \<^verbatim>\<open>console.log\<close> calls have no effect on any result and are left out.
\<close>

datatype error =
    InvalidPublicKeyInput   \<comment> \<open>web3.js: \<^verbatim>\<open>new PublicKey\<close> of more than 32 significant bytes\<close>
  | BNAssertionFailed       \<comment> \<open>bn.js \<^verbatim>\<open>assert\<close>: division by zero, number outside 53 bits\<close>
  | ERR_OUT_OF_RANGE        \<comment> \<open>\<^verbatim>\<open>Buffer.writeBigUInt64LE\<close> of a value outside 0 .. 2^64-1\<close>
  | RpcFailure              \<comment> \<open>a rejected RPC promise\<close>
  | MintAccountNotFound     \<comment> \<open>\<^verbatim>\<open>getTokenProgramForMint\<close>\<close>
  | NoPoolFound             \<comment> \<open>\<^verbatim>\<open>createSwapTransaction\<close>: pool lookup gave \<^verbatim>\<open>null\<close>\<close>
  | TokenOwnerOffCurve      \<comment> \<open>spl-token: \<^verbatim>\<open>getAssociatedTokenAddressSync\<close>\<close>

definition bindE :: "error + 'a \<Rightarrow> ('a \<Rightarrow> error + 'b) \<Rightarrow> error + 'b" where
  "bindE m f = (case m of Inl e \<Rightarrow> Inl e | Inr x \<Rightarrow> f x)"

subsection \<open>Buffers\<close>

type_synonym byte = "8 word"
type_synonym buffer = "byte list"

text \<open>\<^verbatim>\<open>data.subarray(start, end)\<close> for non-negative bounds: both are clamped to the length.\<close>

definition subarray :: "buffer \<Rightarrow> nat \<Rightarrow> nat \<Rightarrow> buffer" where
  "subarray buf start fin = take (fin - start) (drop start buf)"

text \<open>\<^verbatim>\<open>data[i]\<close>: \<^verbatim>\<open>undefined\<close> (here \<open>None\<close>) beyond the end.\<close>

definition byteAt :: "buffer \<Rightarrow> nat \<Rightarrow> byte option" where
  "byteAt buf i = (if i < length buf then Some (buf ! i) else None)"

subsection \<open>bn.js\<close>

text \<open>
  A \<^verbatim>\<open>BN\<close> is a signed integer of arbitrary size: \<open>int\<close>. \<^verbatim>\<open>new BN(bytes)\<close> reads the
  bytes as a big-endian number, \<^verbatim>\<open>new BN(bytes, "le")\<close> as a little-endian one; an empty
  array gives 0.
\<close>

definition BN_be :: "buffer \<Rightarrow> int" where
  "BN_be bs = foldl (\<lambda>acc b. acc * 256 + uint b) 0 bs"

definition BN_le :: "buffer \<Rightarrow> int" where
  "BN_le bs = foldr (\<lambda>b acc. uint b + 256 * acc) bs 0"

text \<open>\<^verbatim>\<open>byteLength()\<close>: the number of bytes of the magnitude, 0 for 0.\<close>

function byteLength :: "nat \<Rightarrow> nat" where
  "byteLength n = (if n = 0 then 0 else Suc (byteLength (n div 256)))"
  by pat_completeness auto
termination
  by (relation "measure id") auto

declare byteLength.simps [simp del]

text \<open>\<^verbatim>\<open>new BN(number)\<close> asserts that the magnitude is below \<open>2^53\<close>.\<close>

definition BN_of_number :: "int \<Rightarrow> error + int" where
  "BN_of_number n = (if \<bar>n\<bar> < 2 ^ 53 then Inr n else Inl BNAssertionFailed)"

text \<open>\<^verbatim>\<open>a.div(b)\<close>: asserts \<open>b \<noteq> 0\<close>; the quotient is truncated towards zero.\<close>

definition BN_div :: "int \<Rightarrow> int \<Rightarrow> error + int" where
  "BN_div a b =
     (if b = 0 then Inl BNAssertionFailed else Inr (sgn a * sgn b * (\<bar>a\<bar> div \<bar>b\<bar>)))"

text \<open>\<^verbatim>\<open>toNumber()\<close>: asserts that the value fits 53 bits.\<close>

definition BN_toNumber :: "int \<Rightarrow> error + int" where
  "BN_toNumber a = (if \<bar>a\<bar> < 2 ^ 53 then Inr a else Inl BNAssertionFailed)"

subsection \<open>Public keys\<close>

text \<open>
  A web3.js \<^verbatim>\<open>PublicKey\<close> holds a \<^verbatim>\<open>BN\<close>; \<^verbatim>\<open>equals\<close> compares these numbers.
  Constructed from a byte array, the bytes are read big-endian, and only a number of more than
  32 bytes is refused: a shorter array is accepted. \<^verbatim>\<open>toBuffer()\<close> writes the number
  big-endian, padded with zeros on the left to 32 bytes.
\<close>

datatype PublicKey = PublicKey (bn: int)

definition new_PublicKey :: "buffer \<Rightarrow> error + PublicKey" where
  "new_PublicKey v =
     (let n = BN_be v in
      if byteLength (nat \<bar>n\<bar>) > 32 then Inl InvalidPublicKeyInput else Inr (PublicKey n))"

fun le_bytes :: "nat \<Rightarrow> int \<Rightarrow> buffer" where
  "le_bytes 0 v = []"
| "le_bytes (Suc n) v = word_of_int (v mod 256) # le_bytes n (v div 256)"

definition be_bytes :: "nat \<Rightarrow> int \<Rightarrow> buffer" where
  "be_bytes n v = rev (le_bytes n v)"

definition toBuffer :: "PublicKey \<Rightarrow> buffer" where
  "toBuffer k = be_bytes 32 (bn k)"

text \<open>The addresses the module names, decoded from their base-58 text.\<close>

definition RAYDIUM_CPMM_PROGRAM_ID :: PublicKey where
  "RAYDIUM_CPMM_PROGRAM_ID =
     PublicKey 76515703900233190660591128275926181994727486580522254552177469512830257523827"

definition RAYDIUM_CPMM_AUTHORITY :: PublicKey where
  "RAYDIUM_CPMM_AUTHORITY =
     PublicKey 106295023720017726563151140856041834598523782454110109779674876033902142462567"

definition NATIVE_MINT :: PublicKey where
  "NATIVE_MINT =
     PublicKey 2988679396378646993494765771507681406623014513651778753134412041978399162369"

definition TOKEN_PROGRAM_ID :: PublicKey where
  "TOKEN_PROGRAM_ID =
     PublicKey 3106054211088883198575105191760876350940303353676611666299516346430146937001"

definition TOKEN_ACCOUNT_RENT :: int where
  "TOKEN_ACCOUNT_RENT = 2039280"

definition ACCOUNT_SIZE :: nat where
  "ACCOUNT_SIZE = 165"

definition SWAP_BASE_INPUT_DISCRIMINATOR :: buffer where
  "SWAP_BASE_INPUT_DISCRIMINATOR = [143, 190, 90, 218, 196, 30, 51, 222]"

subsection \<open>Pool state layout and decoder\<close>

definition AMM_CONFIG :: nat where "AMM_CONFIG = 8"
definition POOL_CREATOR :: nat where "POOL_CREATOR = 40"
definition TOKEN_0_VAULT :: nat where "TOKEN_0_VAULT = 72"
definition TOKEN_1_VAULT :: nat where "TOKEN_1_VAULT = 104"
definition LP_MINT :: nat where "LP_MINT = 136"
definition TOKEN_0_MINT :: nat where "TOKEN_0_MINT = 168"
definition TOKEN_1_MINT :: nat where "TOKEN_1_MINT = 200"
definition TOKEN_0_PROGRAM :: nat where "TOKEN_0_PROGRAM = 232"
definition TOKEN_1_PROGRAM :: nat where "TOKEN_1_PROGRAM = 264"
definition OBSERVATION_KEY :: nat where "OBSERVATION_KEY = 296"
definition AUTH_BUMP :: nat where "AUTH_BUMP = 328"
definition STATUS :: nat where "STATUS = 329"
definition LP_MINT_DECIMALS :: nat where "LP_MINT_DECIMALS = 330"
definition MINT_0_DECIMALS :: nat where "MINT_0_DECIMALS = 331"
definition MINT_1_DECIMALS :: nat where "MINT_1_DECIMALS = 332"
definition LP_SUPPLY :: nat where "LP_SUPPLY = 333"
definition PROTOCOL_FEES_TOKEN_0 :: nat where "PROTOCOL_FEES_TOKEN_0 = 341"
definition PROTOCOL_FEES_TOKEN_1 :: nat where "PROTOCOL_FEES_TOKEN_1 = 349"
definition FUND_FEES_TOKEN_0 :: nat where "FUND_FEES_TOKEN_0 = 357"
definition FUND_FEES_TOKEN_1 :: nat where "FUND_FEES_TOKEN_1 = 365"
definition OPEN_TIME :: nat where "OPEN_TIME = 373"

text \<open>
  The five one-byte fields are \<^verbatim>\<open>data[offset]\<close>: a number, or \<^verbatim>\<open>undefined\<close> when the
  buffer ends before the offset.
\<close>

record PoolState =
  address :: PublicKey
  ammConfig :: PublicKey
  poolCreator :: PublicKey
  token0Vault :: PublicKey
  token1Vault :: PublicKey
  lpMint :: PublicKey
  token0Mint :: PublicKey
  token1Mint :: PublicKey
  token0Program :: PublicKey
  token1Program :: PublicKey
  observationKey :: PublicKey
  authBump :: "byte option"
  status :: "byte option"
  lpMintDecimals :: "byte option"
  mint0Decimals :: "byte option"
  mint1Decimals :: "byte option"
  lpSupply :: int
  protocolFeesToken0 :: int
  protocolFeesToken1 :: int
  fundFeesToken0 :: int
  fundFeesToken1 :: int
  openTime :: int

definition parsePoolState :: "PublicKey \<Rightarrow> buffer \<Rightarrow> error + PoolState" where
  "parsePoolState addr buf =
     bindE (new_PublicKey (subarray buf AMM_CONFIG (AMM_CONFIG + 32))) (\<lambda>k1.
     bindE (new_PublicKey (subarray buf POOL_CREATOR (POOL_CREATOR + 32))) (\<lambda>k2.
     bindE (new_PublicKey (subarray buf TOKEN_0_VAULT (TOKEN_0_VAULT + 32))) (\<lambda>k3.
     bindE (new_PublicKey (subarray buf TOKEN_1_VAULT (TOKEN_1_VAULT + 32))) (\<lambda>k4.
     bindE (new_PublicKey (subarray buf LP_MINT (LP_MINT + 32))) (\<lambda>k5.
     bindE (new_PublicKey (subarray buf TOKEN_0_MINT (TOKEN_0_MINT + 32))) (\<lambda>k6.
     bindE (new_PublicKey (subarray buf TOKEN_1_MINT (TOKEN_1_MINT + 32))) (\<lambda>k7.
     bindE (new_PublicKey (subarray buf TOKEN_0_PROGRAM (TOKEN_0_PROGRAM + 32))) (\<lambda>k8.
     bindE (new_PublicKey (subarray buf TOKEN_1_PROGRAM (TOKEN_1_PROGRAM + 32))) (\<lambda>k9.
     bindE (new_PublicKey (subarray buf OBSERVATION_KEY (OBSERVATION_KEY + 32))) (\<lambda>k10.
     Inr \<lparr> address = addr,
           ammConfig = k1,
           poolCreator = k2,
           token0Vault = k3,
           token1Vault = k4,
           lpMint = k5,
           token0Mint = k6,
           token1Mint = k7,
           token0Program = k8,
           token1Program = k9,
           observationKey = k10,
           authBump = byteAt buf AUTH_BUMP,
           status = byteAt buf STATUS,
           lpMintDecimals = byteAt buf LP_MINT_DECIMALS,
           mint0Decimals = byteAt buf MINT_0_DECIMALS,
           mint1Decimals = byteAt buf MINT_1_DECIMALS,
           lpSupply = BN_le (subarray buf LP_SUPPLY (LP_SUPPLY + 8)),
           protocolFeesToken0 =
             BN_le (subarray buf PROTOCOL_FEES_TOKEN_0 (PROTOCOL_FEES_TOKEN_0 + 8)),
           protocolFeesToken1 =
             BN_le (subarray buf PROTOCOL_FEES_TOKEN_1 (PROTOCOL_FEES_TOKEN_1 + 8)),
           fundFeesToken0 = BN_le (subarray buf FUND_FEES_TOKEN_0 (FUND_FEES_TOKEN_0 + 8)),
           fundFeesToken1 = BN_le (subarray buf FUND_FEES_TOKEN_1 (FUND_FEES_TOKEN_1 + 8)),
           openTime = BN_le (subarray buf OPEN_TIME (OPEN_TIME + 8)) \<rparr>))))))))))"

subsection \<open>Instructions\<close>

record AccountMeta =
  pubkey :: PublicKey
  isSigner :: bool
  isWritable :: bool

record TransactionInstruction =
  programId :: PublicKey
  keys :: "AccountMeta list"
  data :: buffer

text \<open>
  The instructions that the web3.js and spl-token builders return are kept as terms over the
  builders' arguments; their byte encodings are the libraries' and are not modelled. Only the
  swap instruction is built by this module, byte by byte.
\<close>

datatype Instruction =
    SetComputeUnitLimit nat
  | SetComputeUnitPrice nat
  | CreateAccountWithSeed PublicKey PublicKey PublicKey string int nat PublicKey
      \<comment> \<open>fromPubkey, newAccountPubkey, basePubkey, seed, lamports, space, programId\<close>
  | InitializeAccount PublicKey PublicKey PublicKey PublicKey
      \<comment> \<open>account, mint, owner, programId\<close>
  | CreateAssociatedTokenAccountIdempotent PublicKey PublicKey PublicKey PublicKey PublicKey
      \<comment> \<open>payer, associatedToken, owner, mint, programId\<close>
  | CloseAccount PublicKey PublicKey PublicKey PublicKey
      \<comment> \<open>account, destination, authority, programId\<close>
  | Swap TransactionInstruction

record VersionedTransaction =
  payerKey :: PublicKey
  recentBlockhash :: string
  instructions :: "Instruction list"

subsection \<open>The ledger connection and the effects of a call\<close>

text \<open>
  The remote ledger is a parameter. It may answer differently as time goes by, so each
  response is a function of the requests made so far and of the request. A token balance is
  the decimal text of an unsigned 64-bit amount, which \<^verbatim>\<open>new BN(amount)\<close> reads: a \<open>nat\<close>.
  The filtering of \<^verbatim>\<open>getProgramAccounts\<close> is done by the remote and is not modelled.
\<close>

datatype filter = DataSize nat | Memcmp nat PublicKey

datatype rpc_call =
    GetAccountInfo PublicKey
  | GetProgramAccounts PublicKey "filter list"
  | GetTokenAccountBalance PublicKey
  | GetLatestBlockhash

record AccountInfo =
  owner :: PublicKey
  data :: buffer

record Connection =
  accountInfoAt :: "rpc_call list \<Rightarrow> PublicKey \<Rightarrow> error + AccountInfo option"
  programAccountsOf ::
    "rpc_call list \<Rightarrow> PublicKey \<Rightarrow> filter list \<Rightarrow> error + (PublicKey \<times> AccountInfo) list"
  tokenAccountBalanceOf :: "rpc_call list \<Rightarrow> PublicKey \<Rightarrow> error + nat"
  latestBlockhashAt :: "rpc_call list \<Rightarrow> error + string"

text \<open>
  What a call leaves behind: the requests sent to the ledger, in order, and the number of
  key pairs drawn from the random generator.
\<close>

record effects =
  rpc_log :: "rpc_call list"
  keypairs :: nat

type_synonym 'a io = "effects \<Rightarrow> (error + 'a) \<times> effects"

definition returnIO :: "'a \<Rightarrow> 'a io" where
  "returnIO x s = (Inr x, s)"

definition throwIO :: "error \<Rightarrow> 'a io" where
  "throwIO e s = (Inl e, s)"

definition liftE :: "error + 'a \<Rightarrow> 'a io" where
  "liftE m s = (m, s)"

definition bindIO :: "'a io \<Rightarrow> ('a \<Rightarrow> 'b io) \<Rightarrow> 'b io" where
  "bindIO m f s = (case m s of (Inl e, s') \<Rightarrow> (Inl e, s') | (Inr x, s') \<Rightarrow> f x s')"

definition getAccountInfo :: "Connection \<Rightarrow> PublicKey \<Rightarrow> AccountInfo option io" where
  "getAccountInfo conn a s =
     (accountInfoAt conn (rpc_log s) a, s\<lparr>rpc_log := rpc_log s @ [GetAccountInfo a]\<rparr>)"

definition getProgramAccounts ::
  "Connection \<Rightarrow> PublicKey \<Rightarrow> filter list \<Rightarrow> (PublicKey \<times> AccountInfo) list io" where
  "getProgramAccounts conn p fs s =
     (programAccountsOf conn (rpc_log s) p fs,
      s\<lparr>rpc_log := rpc_log s @ [GetProgramAccounts p fs]\<rparr>)"

definition getTokenAccountBalance :: "Connection \<Rightarrow> PublicKey \<Rightarrow> nat io" where
  "getTokenAccountBalance conn a s =
     (tokenAccountBalanceOf conn (rpc_log s) a,
      s\<lparr>rpc_log := rpc_log s @ [GetTokenAccountBalance a]\<rparr>)"

definition getLatestBlockhash :: "Connection \<Rightarrow> string io" where
  "getLatestBlockhash conn s =
     (latestBlockhashAt conn (rpc_log s), s\<lparr>rpc_log := rpc_log s @ [GetLatestBlockhash]\<rparr>)"

subsection \<open>Pool lookup\<close>

text \<open>
  \<^verbatim>\<open>getPoolStateByAddress\<close> returns \<^verbatim>\<open>PoolState | null\<close> and catches every exception.
  The owner test compares the base-58 texts of two 32-byte addresses, which are equal exactly
  when the addresses are.
\<close>

definition getPoolStateByAddress ::
  "Connection \<Rightarrow> PublicKey \<Rightarrow> effects \<Rightarrow> PoolState option \<times> effects" where
  "getPoolStateByAddress conn poolAddress s =
     (case getAccountInfo conn poolAddress s of
        (Inl e, s') \<Rightarrow> (None, s')
      | (Inr None, s') \<Rightarrow> (None, s')
      | (Inr (Some accountInfo), s') \<Rightarrow>
          if owner accountInfo \<noteq> RAYDIUM_CPMM_PROGRAM_ID then (None, s')
          else (case parsePoolState poolAddress (AccountInfo.data accountInfo) of
                  Inl e \<Rightarrow> (None, s')
                | Inr poolState \<Rightarrow> (Some poolState, s')))"

text \<open>The loop over the candidates: the first one that parses and whose status is 0.\<close>

fun firstActivePool :: "(PublicKey \<times> AccountInfo) list \<Rightarrow> PoolState option" where
  "firstActivePool [] = None"
| "firstActivePool ((pk, account) # rest) =
     (case parsePoolState pk (AccountInfo.data account) of
        Inl e \<Rightarrow> firstActivePool rest
      | Inr poolState \<Rightarrow>
          if status poolState = Some 0 then Some poolState else firstActivePool rest)"

text \<open>One filtered search: a failed search counts as no result.\<close>

definition searchPools ::
  "Connection \<Rightarrow> filter list \<Rightarrow> effects \<Rightarrow> (PublicKey \<times> AccountInfo) list \<times> effects" where
  "searchPools conn fs s =
     (case getProgramAccounts conn RAYDIUM_CPMM_PROGRAM_ID fs s of
        (Inl e, s') \<Rightarrow> ([], s')
      | (Inr accounts, s') \<Rightarrow> (accounts, s'))"

text \<open>
  The two searches are started one after the other and awaited together; their requests are
  logged in the order they are sent.
\<close>

definition findPoolByTokenPair ::
  "Connection \<Rightarrow> PublicKey \<Rightarrow> PublicKey \<Rightarrow> effects \<Rightarrow> PoolState option \<times> effects" where
  "findPoolByTokenPair conn tokenA tokenB s =
     (case searchPools conn
             [DataSize 637, Memcmp TOKEN_0_MINT tokenA, Memcmp TOKEN_1_MINT tokenB] s of
        (r1, s1) \<Rightarrow>
     (case searchPools conn
             [DataSize 637, Memcmp TOKEN_0_MINT tokenB, Memcmp TOKEN_1_MINT tokenA] s1 of
        (r2, s2) \<Rightarrow> (firstActivePool (r1 @ r2), s2)))"

subsection \<open>Reserves and the quote\<close>

record VaultBalances =
  vault0Balance :: int
  vault1Balance :: int

record SwapQuote =
  amountIn :: int
  amountOut :: int
  minimumAmountOut :: int
  priceImpact :: rat
  inputMint :: PublicKey
  outputMint :: PublicKey

text \<open>
  Both balance reads are sent before either is awaited; the call fails when one of them does.
\<close>

definition getVaultBalances :: "Connection \<Rightarrow> PoolState \<Rightarrow> VaultBalances io" where
  "getVaultBalances conn poolState s =
     (case getTokenAccountBalance conn (token0Vault poolState) s of
        (r0, s0) \<Rightarrow>
     (case getTokenAccountBalance conn (token1Vault poolState) s0 of
        (r1, s1) \<Rightarrow>
     (bindE r0 (\<lambda>b0. bindE r1 (\<lambda>b1.
        Inr \<lparr> vault0Balance = int b0, vault1Balance = int b1 \<rparr>)), s1)))"

text \<open>
  \<^verbatim>\<open>calculateSwapOutput\<close>. \<open>feeBps\<close> is a JavaScript number holding an integer. The price
  impact is a JavaScript double; the model keeps the exact quotient, a \<open>rat\<close>, and not its
  rounding to a double.
\<close>

definition amountInAfterFee :: "int \<Rightarrow> int \<Rightarrow> error + int" where
  "amountInAfterFee amount_in feeMultiplier = BN_div (amount_in * feeMultiplier) 10000"

definition calculateSwapOutput :: "int \<Rightarrow> int \<Rightarrow> int \<Rightarrow> int \<Rightarrow> error + int \<times> rat" where
  "calculateSwapOutput amount_in inputReserve outputReserve feeBps =
     bindE (BN_of_number (10000 - feeBps)) (\<lambda>feeMultiplier.
     bindE (amountInAfterFee amount_in feeMultiplier) (\<lambda>afterFee.
     bindE (BN_div (afterFee * outputReserve) (inputReserve + afterFee)) (\<lambda>amount_out.
     bindE (BN_div (outputReserve * 1000000000) inputReserve) (\<lambda>spotPrice.
     bindE (BN_div (amount_in * spotPrice) 1000000000) (\<lambda>projected.
     bindE (BN_div (projected * feeMultiplier) 10000) (\<lambda>expectedOutput.
     bindE (if expectedOutput \<noteq> 0
            then bindE (BN_div (amount_out * 10000) expectedOutput) (\<lambda>actualRatio.
                 bindE (BN_toNumber actualRatio) (\<lambda>ratio.
                 Inr (max 0 (of_int (10000 - ratio) / 100))))
            else Inr 0) (\<lambda>price_impact.
     Inr (amount_out, price_impact))))))))"

text \<open>
  The slippage policy of \<^verbatim>\<open>getSwapQuote\<close>, one definition for each of its constants.
  \<open>slippageBps\<close> is a JavaScript number holding an integer.
\<close>

definition isLowLiquidity :: "int \<Rightarrow> bool" where
  "isLowLiquidity inputReserve = (inputReserve < 100000000)"

definition conservativeSlippage :: "int \<Rightarrow> int" where
  "conservativeSlippage inputReserve = (if isLowLiquidity inputReserve then 1500 else 500)"

definition effectiveSlippageBps :: "int \<Rightarrow> int \<Rightarrow> int" where
  "effectiveSlippageBps slippageBps inputReserve =
     max slippageBps (conservativeSlippage inputReserve)"

definition applySlippage :: "int \<Rightarrow> int \<Rightarrow> error + int" where
  "applySlippage amount_out effectiveBps =
     bindE (BN_of_number (10000 - effectiveBps)) (\<lambda>slippageMultiplier.
     BN_div (amount_out * slippageMultiplier) 10000)"

text \<open>
  The part of \<^verbatim>\<open>getSwapQuote\<close> after the reserves are known: the output for the given fee
  (the source passes none, so \<^verbatim>\<open>calculateSwapOutput\<close> takes its default, 100) and the
  minimum after slippage. It returns amount out, minimum amount out and price impact.
\<close>

definition quoteAmounts :: "int \<Rightarrow> int \<Rightarrow> int \<Rightarrow> int \<Rightarrow> int \<Rightarrow> error + int \<times> int \<times> rat" where
  "quoteAmounts amount_in inputReserve outputReserve feeBps slippageBps =
     bindE (calculateSwapOutput amount_in inputReserve outputReserve feeBps)
       (\<lambda>(amount_out, impact).
     bindE (applySlippage amount_out (effectiveSlippageBps slippageBps inputReserve))
       (\<lambda>minimum_out.
     Inr (amount_out, minimum_out, impact)))"

definition getSwapQuote ::
  "Connection \<Rightarrow> PoolState \<Rightarrow> PublicKey \<Rightarrow> PublicKey \<Rightarrow> int \<Rightarrow> int \<Rightarrow> SwapQuote io" where
  "getSwapQuote conn poolState input_mint output_mint amount_in slippageBps =
     bindIO (getVaultBalances conn poolState) (\<lambda>vaultBalances.
     let isToken0ToToken1 = (input_mint = token0Mint poolState);
         inputReserve = (if isToken0ToToken1 then vault0Balance vaultBalances
                         else vault1Balance vaultBalances);
         outputReserve = (if isToken0ToToken1 then vault1Balance vaultBalances
                          else vault0Balance vaultBalances)
     in liftE
       (bindE (quoteAmounts amount_in inputReserve outputReserve 100 slippageBps)
          (\<lambda>(amount_out, minimum_out, impact).
        Inr \<lparr> amountIn = amount_in,
              amountOut = amount_out,
              minimumAmountOut = minimum_out,
              priceImpact = impact,
              inputMint = input_mint,
              outputMint = output_mint \<rparr>)))"

definition getTokenProgramForMint :: "Connection \<Rightarrow> PublicKey \<Rightarrow> PublicKey io" where
  "getTokenProgramForMint conn mint =
     (if mint = NATIVE_MINT then returnIO TOKEN_PROGRAM_ID
      else bindIO (getAccountInfo conn mint) (\<lambda>mintInfo.
           case mintInfo of
             None \<Rightarrow> throwIO MintAccountNotFound
           | Some info \<Rightarrow> returnIO (owner info)))"

subsection \<open>The swap instruction\<close>

text \<open>\<^verbatim>\<open>source.copy(target, targetStart)\<close>: copies as many bytes as fit.\<close>

definition bufferCopy :: "buffer \<Rightarrow> buffer \<Rightarrow> nat \<Rightarrow> buffer" where
  "bufferCopy source target targetStart =
     (let n = min (length source) (length target - targetStart)
      in take targetStart target @ take n source @ drop (targetStart + n) target)"

text \<open>
  \<^verbatim>\<open>buf.writeBigUInt64LE(value, offset)\<close>: refuses a value outside \<open>0 .. 2^64 - 1\<close> and an
  offset with fewer than 8 bytes behind it; then stores the low and the high 32 bits, each
  as four bytes, lowest first (\<^verbatim>\<open>buf[offset++] = lo; lo = lo >> 8\<close>; a byte store keeps the
  low 8 bits).
\<close>

definition write32LE :: "buffer \<Rightarrow> nat \<Rightarrow> int \<Rightarrow> buffer" where
  "write32LE buf off w =
     buf[off := word_of_int w,
         off + 1 := word_of_int (w div 256),
         off + 2 := word_of_int (w div 256 div 256),
         off + 3 := word_of_int (w div 256 div 256 div 256)]"

definition writeBigUInt64LE :: "buffer \<Rightarrow> int \<Rightarrow> nat \<Rightarrow> error + buffer" where
  "writeBigUInt64LE buf v off =
     (if v < 0 \<or> 2 ^ 64 - 1 < v then Inl ERR_OUT_OF_RANGE
      else if length buf < off + 8 then Inl ERR_OUT_OF_RANGE
      else Inr (write32LE (write32LE buf off (v mod 2 ^ 32))
                  (off + 4) (v div 2 ^ 32 mod 2 ^ 32)))"

definition buildSwapInstruction ::
  "PoolState \<Rightarrow> PublicKey \<Rightarrow> PublicKey \<Rightarrow> PublicKey \<Rightarrow> PublicKey \<Rightarrow> PublicKey \<Rightarrow>
   PublicKey \<Rightarrow> PublicKey \<Rightarrow> int \<Rightarrow> int \<Rightarrow> error + TransactionInstruction" where
  "buildSwapInstruction poolState payer inputTokenAccount outputTokenAccount input_mint
     output_mint inputTokenProgram outputTokenProgram amount_in minimum_out =
     (let authority = RAYDIUM_CPMM_AUTHORITY;
          isInputToken0 = (input_mint = token0Mint poolState);
          inputVault = (if isInputToken0 then token0Vault poolState
                        else token1Vault poolState);
          outputVault = (if isInputToken0 then token1Vault poolState
                         else token0Vault poolState);
          data0 = bufferCopy SWAP_BASE_INPUT_DISCRIMINATOR (replicate 24 0) 0
      in bindE (writeBigUInt64LE data0 amount_in 8) (\<lambda>data1.
         bindE (writeBigUInt64LE data1 minimum_out 16) (\<lambda>data2.
         Inr \<lparr> programId = RAYDIUM_CPMM_PROGRAM_ID,
               keys =
                 [\<lparr> pubkey = payer, isSigner = True, isWritable = True \<rparr>,
                  \<lparr> pubkey = authority, isSigner = False, isWritable = False \<rparr>,
                  \<lparr> pubkey = ammConfig poolState, isSigner = False, isWritable = False \<rparr>,
                  \<lparr> pubkey = address poolState, isSigner = False, isWritable = True \<rparr>,
                  \<lparr> pubkey = inputTokenAccount, isSigner = False, isWritable = True \<rparr>,
                  \<lparr> pubkey = outputTokenAccount, isSigner = False, isWritable = True \<rparr>,
                  \<lparr> pubkey = inputVault, isSigner = False, isWritable = True \<rparr>,
                  \<lparr> pubkey = outputVault, isSigner = False, isWritable = True \<rparr>,
                  \<lparr> pubkey = inputTokenProgram, isSigner = False, isWritable = False \<rparr>,
                  \<lparr> pubkey = outputTokenProgram, isSigner = False, isWritable = False \<rparr>,
                  \<lparr> pubkey = input_mint, isSigner = False, isWritable = False \<rparr>,
                  \<lparr> pubkey = output_mint, isSigner = False, isWritable = False \<rparr>,
                  \<lparr> pubkey = observationKey poolState, isSigner = False, isWritable = True \<rparr>],
               TransactionInstruction.data = data2 \<rparr>)))"

subsection \<open>Temporary wrapped-native accounts and the transaction\<close>

text \<open>
  Library functions whose results this module only passes on are parameters: the base-58 text
  of the public key of the \<open>k\<close>-th key pair that \<^verbatim>\<open>Keypair.generate()\<close> returns, the address
  derivation \<^verbatim>\<open>PublicKey.createWithSeed\<close> (a SHA-256 hash), and
  \<^verbatim>\<open>getAssociatedTokenAddressSync\<close>, which throws for an owner that is off the curve.
\<close>

record Externals =
  generatedKeyBase58 :: "nat \<Rightarrow> string"
  createWithSeed :: "PublicKey \<Rightarrow> string \<Rightarrow> PublicKey \<Rightarrow> PublicKey"
  getAssociatedTokenAddressSync ::
    "PublicKey \<Rightarrow> PublicKey \<Rightarrow> bool \<Rightarrow> PublicKey \<Rightarrow> error + PublicKey"

text \<open>
  \<^verbatim>\<open>TOKEN_ACCOUNT_RENT + amountLamports.toNumber()\<close> is an addition of doubles. Both
  operands are below \<open>2^53\<close> in magnitude, so the exact sum is below \<open>2^54\<close>: it is
  representable when it is at most \<open>2^53\<close> or even, and an odd sum beyond is rounded to the
  neighbour with an even significand, the multiple of 4.
\<close>

definition js_add :: "int \<Rightarrow> int \<Rightarrow> int" where
  "js_add a b =
     (let s = a + b in
      if \<bar>s\<bar> \<le> 2 ^ 53 \<or> even s then s
      else if (s - 1) mod 4 = 0 then s - 1 else s + 1)"

definition createTempWsolAccount ::
  "Externals \<Rightarrow> PublicKey \<Rightarrow> int \<Rightarrow> (PublicKey \<times> string \<times> Instruction \<times> Instruction) io" where
  "createTempWsolAccount ext payer amountLamports s =
     (let seed = take 32 (generatedKeyBase58 ext (keypairs s));
          s' = s\<lparr>keypairs := Suc (keypairs s)\<rparr>;
          wsolAccount = createWithSeed ext payer seed TOKEN_PROGRAM_ID
      in case BN_toNumber amountLamports of
           Inl e \<Rightarrow> (Inl e, s')
         | Inr n \<Rightarrow>
             (let lamports = js_add TOKEN_ACCOUNT_RENT n;
                  createInstruction =
                    CreateAccountWithSeed payer wsolAccount payer seed lamports ACCOUNT_SIZE
                      TOKEN_PROGRAM_ID;
                  initInstruction =
                    InitializeAccount wsolAccount NATIVE_MINT payer TOKEN_PROGRAM_ID
              in (Inr (wsolAccount, seed, createInstruction, initInstruction), s')))"

text \<open>
  The two account sections of \<^verbatim>\<open>createSwapTransaction\<close>. Each returns the token account
  used by the swap, the temporary account if one was created, and the instructions it pushes.
\<close>

definition handleInputTokenAccount ::
  "Externals \<Rightarrow> PublicKey \<Rightarrow> PublicKey \<Rightarrow> PublicKey \<Rightarrow> int \<Rightarrow>
   (PublicKey \<times> PublicKey option \<times> Instruction list) io" where
  "handleInputTokenAccount ext payer input_mint inputTokenProgram amount_in =
     (if input_mint = NATIVE_MINT
      then bindIO (createTempWsolAccount ext payer amount_in)
             (\<lambda>(wsolAccount, seed, createInstruction, initInstruction).
               returnIO (wsolAccount, Some wsolAccount, [createInstruction, initInstruction]))
      else bindIO
             (liftE (getAssociatedTokenAddressSync ext input_mint payer False inputTokenProgram))
             (\<lambda>ata. returnIO (ata, None, [])))"

definition handleOutputTokenAccount ::
  "Externals \<Rightarrow> PublicKey \<Rightarrow> PublicKey \<Rightarrow> PublicKey \<Rightarrow>
   (PublicKey \<times> PublicKey option \<times> Instruction list) io" where
  "handleOutputTokenAccount ext payer output_mint outputTokenProgram =
     (if output_mint = NATIVE_MINT
      then bindIO (createTempWsolAccount ext payer 0)
             (\<lambda>(wsolAccount, seed, createInstruction, initInstruction).
               returnIO (wsolAccount, Some wsolAccount, [createInstruction, initInstruction]))
      else bindIO
             (liftE
                (getAssociatedTokenAddressSync ext output_mint payer False outputTokenProgram))
             (\<lambda>ata. returnIO
                (ata, None,
                 [CreateAssociatedTokenAccountIdempotent payer ata payer output_mint
                    outputTokenProgram])))"

definition closeInstructions :: "PublicKey \<Rightarrow> PublicKey option \<Rightarrow> Instruction list" where
  "closeInstructions payer temp =
     (case temp of
        None \<Rightarrow> []
      | Some account \<Rightarrow> [CloseAccount account payer payer TOKEN_PROGRAM_ID])"

text \<open>
  \<^verbatim>\<open>createSwapTransaction\<close>. The optional \<^verbatim>\<open>poolAddress\<close> is an \<open>option\<close>. Compiling the
  message keeps the instructions in their order; the model keeps the list itself.
\<close>

definition createSwapTransaction ::
  "Connection \<Rightarrow> Externals \<Rightarrow> PublicKey \<Rightarrow> PublicKey \<Rightarrow> PublicKey \<Rightarrow> int \<Rightarrow> int \<Rightarrow>
   PublicKey option \<Rightarrow> (VersionedTransaction \<times> SwapQuote \<times> PoolState) io" where
  "createSwapTransaction conn ext payer input_mint output_mint amount_in slippageBps
     poolAddress =
     bindIO (\<lambda>s. case (case poolAddress of
                         Some a \<Rightarrow> getPoolStateByAddress conn a s
                       | None \<Rightarrow> findPoolByTokenPair conn input_mint output_mint s) of
                   (None, s') \<Rightarrow> (Inl NoPoolFound, s')
                 | (Some poolState, s') \<Rightarrow> (Inr poolState, s')) (\<lambda>poolState.
     bindIO (getSwapQuote conn poolState input_mint output_mint amount_in slippageBps)
       (\<lambda>quote.
     bindIO (getTokenProgramForMint conn input_mint) (\<lambda>inputTokenProgram.
     bindIO (getTokenProgramForMint conn output_mint) (\<lambda>outputTokenProgram.
     bindIO (handleInputTokenAccount ext payer input_mint inputTokenProgram amount_in)
       (\<lambda>(inputTokenAccount, tempWsolInputAccount, inputSetup).
     bindIO (handleOutputTokenAccount ext payer output_mint outputTokenProgram)
       (\<lambda>(outputTokenAccount, tempWsolOutputAccount, outputSetup).
     bindIO (liftE (buildSwapInstruction poolState payer inputTokenAccount outputTokenAccount
                      input_mint output_mint inputTokenProgram outputTokenProgram
                      (amountIn quote) (minimumAmountOut quote))) (\<lambda>swapInstruction.
     bindIO (getLatestBlockhash conn) (\<lambda>blockhash.
     returnIO
       (\<lparr> payerKey = payer,
           recentBlockhash = blockhash,
           instructions =
             [SetComputeUnitLimit 300000, SetComputeUnitPrice 50000]
             @ inputSetup @ outputSetup
             @ [Swap swapInstruction]
             @ closeInstructions payer tempWsolOutputAccount
             @ closeInstructions payer tempWsolInputAccount \<rparr>,
        quote, poolState)))))))))"

text \<open>
  The instructions that create, initialise or close a temporary wrapped-native account.
\<close>

fun isEphemeral :: "Instruction \<Rightarrow> bool" where
  "isEphemeral (CreateAccountWithSeed payer account base seed lamports space program) = True"
| "isEphemeral (InitializeAccount account mint holder program) = True"
| "isEphemeral (CloseAccount account destination authority program) = True"
| "isEphemeral other = False"

subsection \<open>Re-encoding a pool state\<close>

text \<open>
  Modelled from the spec: the module has no encoder (the codec only reads), so the
  re-encoding that the round-trip property of the spec speaks of is written here from its
  words, re-encoding the same fields at the same offsets: each decoded field is written
  into a record at the offset of \<^verbatim>\<open>POOL_STATE_LAYOUT\<close> it was read from, an address as its
  32 bytes, a one-byte field as that byte (0 for \<^verbatim>\<open>undefined\<close>), an integer as 8
  little-endian bytes. The 8 bytes before the first field and the bytes from 381 on belong
  to no field; the record that is written into is an argument.
\<close>

definition byteOrZero :: "byte option \<Rightarrow> byte" where
  "byteOrZero b = (case b of None \<Rightarrow> 0 | Some x \<Rightarrow> x)"

definition encodedFields :: "PoolState \<Rightarrow> (nat \<times> buffer) list" where
  "encodedFields ps =
     [(AMM_CONFIG, toBuffer (ammConfig ps)),
      (POOL_CREATOR, toBuffer (poolCreator ps)),
      (TOKEN_0_VAULT, toBuffer (token0Vault ps)),
      (TOKEN_1_VAULT, toBuffer (token1Vault ps)),
      (LP_MINT, toBuffer (lpMint ps)),
      (TOKEN_0_MINT, toBuffer (token0Mint ps)),
      (TOKEN_1_MINT, toBuffer (token1Mint ps)),
      (TOKEN_0_PROGRAM, toBuffer (token0Program ps)),
      (TOKEN_1_PROGRAM, toBuffer (token1Program ps)),
      (OBSERVATION_KEY, toBuffer (observationKey ps)),
      (AUTH_BUMP, [byteOrZero (authBump ps)]),
      (STATUS, [byteOrZero (status ps)]),
      (LP_MINT_DECIMALS, [byteOrZero (lpMintDecimals ps)]),
      (MINT_0_DECIMALS, [byteOrZero (mint0Decimals ps)]),
      (MINT_1_DECIMALS, [byteOrZero (mint1Decimals ps)]),
      (LP_SUPPLY, le_bytes 8 (lpSupply ps)),
      (PROTOCOL_FEES_TOKEN_0, le_bytes 8 (protocolFeesToken0 ps)),
      (PROTOCOL_FEES_TOKEN_1, le_bytes 8 (protocolFeesToken1 ps)),
      (FUND_FEES_TOKEN_0, le_bytes 8 (fundFeesToken0 ps)),
      (FUND_FEES_TOKEN_1, le_bytes 8 (fundFeesToken1 ps)),
      (OPEN_TIME, le_bytes 8 (openTime ps))]"

definition writePoolState :: "PoolState \<Rightarrow> buffer \<Rightarrow> buffer" where
  "writePoolState ps base =
     foldl (\<lambda>buf (off, bs). bufferCopy bs buf off) base (encodedFields ps)"

subsection \<open>A concrete pool, ledger and caller\<close>

text \<open>
  A wrapped-native/token pool with reserves of 1 000 000 and 2 000 000 atomic units, the
  ledger that holds it, and the library parameters, for evaluating the operations.
\<close>

definition demoToken :: PublicKey where
  "demoToken = PublicKey 7777"

definition demoPoolAddress :: PublicKey where
  "demoPoolAddress = PublicKey 5000"

definition demoPayer :: PublicKey where
  "demoPayer = PublicKey 4242"

text \<open>
  The account data of a pool state for the concrete ledger: its fields in a 637-byte record
  whose other bytes are 0.
\<close>

definition encodePoolState :: "PoolState \<Rightarrow> buffer" where
  "encodePoolState ps = writePoolState ps (replicate 637 0)"

definition demoPool :: PoolState where
  "demoPool =
     \<lparr> address = demoPoolAddress,
       ammConfig = PublicKey 11,
       poolCreator = PublicKey 12,
       token0Vault = PublicKey 13,
       token1Vault = PublicKey 14,
       lpMint = PublicKey 15,
       token0Mint = NATIVE_MINT,
       token1Mint = demoToken,
       token0Program = TOKEN_PROGRAM_ID,
       token1Program = TOKEN_PROGRAM_ID,
       observationKey = PublicKey 20,
       authBump = Some 254,
       status = Some 0,
       lpMintDecimals = Some 9,
       mint0Decimals = Some 9,
       mint1Decimals = Some 6,
       lpSupply = 1414213,
       protocolFeesToken0 = 120,
       protocolFeesToken1 = 240,
       fundFeesToken0 = 40,
       fundFeesToken1 = 80,
       openTime = 1700000000 \<rparr>"

definition demoLedger :: "PublicKey \<Rightarrow> Connection" where
  "demoLedger poolOwner =
     \<lparr> accountInfoAt = (\<lambda>h a.
         if a = demoPoolAddress
         then Inr (Some \<lparr> owner = poolOwner, data = encodePoolState demoPool \<rparr>)
         else if a = demoToken
         then Inr (Some \<lparr> owner = TOKEN_PROGRAM_ID, data = [] \<rparr>)
         else Inr None),
       programAccountsOf = (\<lambda>h p fs. Inr []),
       tokenAccountBalanceOf = (\<lambda>h a.
         if a = PublicKey 13 then Inr 1000000
         else if a = PublicKey 14 then Inr 2000000
         else Inl RpcFailure),
       latestBlockhashAt = (\<lambda>h. Inr ''blockhash'') \<rparr>"

definition emptyLedger :: Connection where
  "emptyLedger =
     \<lparr> accountInfoAt = (\<lambda>h a. Inr None),
       programAccountsOf = (\<lambda>h p fs. Inr []),
       tokenAccountBalanceOf = (\<lambda>h a. Inl RpcFailure),
       latestBlockhashAt = (\<lambda>h. Inr ''blockhash'') \<rparr>"

definition demoExternals :: Externals where
  "demoExternals =
     \<lparr> generatedKeyBase58 = (\<lambda>k.
         if k = 0 then ''FirstKeyFirstKeyFirstKeyFirstKeyFirstKeyABCD''
         else ''OtherKeyOtherKeyOtherKeyOtherKeyOtherKeyABCD''),
       createWithSeed = (\<lambda>base seed program.
         if seed = ''FirstKeyFirstKeyFirstKeyFirstKey'' then PublicKey 9001
         else PublicKey 9002),
       getAssociatedTokenAddressSync = (\<lambda>mint holder allowOffCurve program.
         Inr (PublicKey (bn mint + 1))) \<rparr>"

definition noEffects :: effects where
  "noEffects = \<lparr> rpc_log = [], keypairs = 0 \<rparr>"

text \<open>
  The quote, the swap instruction and the transaction for swapping 10 000 atomic units of
  the native asset into the token on that ledger.
\<close>

definition demoQuote :: SwapQuote where
  "demoQuote =
     \<lparr> amountIn = 10000, amountOut = 19605, minimumAmountOut = 16664,
       priceImpact = 99 / 100, inputMint = NATIVE_MINT, outputMint = demoToken \<rparr>"

definition demoSwapInstruction :: TransactionInstruction where
  "demoSwapInstruction =
     \<lparr> programId = RAYDIUM_CPMM_PROGRAM_ID,
       keys =
         [\<lparr> pubkey = demoPayer, isSigner = True, isWritable = True \<rparr>,
          \<lparr> pubkey = RAYDIUM_CPMM_AUTHORITY, isSigner = False, isWritable = False \<rparr>,
          \<lparr> pubkey = PublicKey 11, isSigner = False, isWritable = False \<rparr>,
          \<lparr> pubkey = demoPoolAddress, isSigner = False, isWritable = True \<rparr>,
          \<lparr> pubkey = PublicKey 9001, isSigner = False, isWritable = True \<rparr>,
          \<lparr> pubkey = PublicKey 7778, isSigner = False, isWritable = True \<rparr>,
          \<lparr> pubkey = PublicKey 13, isSigner = False, isWritable = True \<rparr>,
          \<lparr> pubkey = PublicKey 14, isSigner = False, isWritable = True \<rparr>,
          \<lparr> pubkey = TOKEN_PROGRAM_ID, isSigner = False, isWritable = False \<rparr>,
          \<lparr> pubkey = TOKEN_PROGRAM_ID, isSigner = False, isWritable = False \<rparr>,
          \<lparr> pubkey = NATIVE_MINT, isSigner = False, isWritable = False \<rparr>,
          \<lparr> pubkey = demoToken, isSigner = False, isWritable = False \<rparr>,
          \<lparr> pubkey = PublicKey 20, isSigner = False, isWritable = True \<rparr>],
       TransactionInstruction.data =
         [143, 190, 90, 218, 196, 30, 51, 222, 16, 39, 0, 0, 0, 0, 0, 0,
          24, 65, 0, 0, 0, 0, 0, 0] \<rparr>"

definition demoTransaction :: VersionedTransaction where
  "demoTransaction =
     \<lparr> payerKey = demoPayer,
       recentBlockhash = ''blockhash'',
       instructions =
         [SetComputeUnitLimit 300000,
          SetComputeUnitPrice 50000,
          CreateAccountWithSeed demoPayer (PublicKey 9001) demoPayer
            ''FirstKeyFirstKeyFirstKeyFirstKey'' 2049280 165 TOKEN_PROGRAM_ID,
          InitializeAccount (PublicKey 9001) NATIVE_MINT demoPayer TOKEN_PROGRAM_ID,
          CreateAssociatedTokenAccountIdempotent demoPayer (PublicKey 7778) demoPayer
            demoToken TOKEN_PROGRAM_ID,
          Swap demoSwapInstruction,
          CloseAccount (PublicKey 9001) demoPayer demoPayer TOKEN_PROGRAM_ID] \<rparr>"


section \<open>Properties\<close>

subsection \<open>Results and errors\<close>

lemma bindE_simps [simp]:
  "bindE (Inl e) f = Inl e"
  "bindE (Inr x) f = f x"
  by (simp_all add: bindE_def)

lemma bindE_eq_Inr: "bindE m f = Inr y \<longleftrightarrow> (\<exists>x. m = Inr x \<and> f x = Inr y)"
  by (cases m) simp_all

subsection \<open>Bytes and numbers\<close>

lemma length_le_bytes [simp]: "length (le_bytes n v) = n"
  by (induction n arbitrary: v) simp_all

lemma length_be_bytes [simp]: "length (be_bytes n v) = n"
  by (simp add: be_bytes_def)

lemma length_toBuffer [simp]: "length (toBuffer k) = 32"
  by (simp add: toBuffer_def)

lemma BN_le_Nil [simp]: "BN_le [] = 0"
  by (simp add: BN_le_def)

lemma BN_le_Cons [simp]: "BN_le (b # bs) = uint b + 256 * BN_le bs"
  by (simp add: BN_le_def)

lemma BN_be_rev: "BN_be bs = BN_le (rev bs)"
  by (simp add: BN_be_def BN_le_def foldl_conv_foldr add.commute mult.commute)

lemma uint_byte_of_int: "uint (word_of_int k :: byte) = k mod 256"
  by (simp add: uint_word_of_int)

lemma BN_le_bounds: "0 \<le> BN_le bs \<and> BN_le bs < 256 ^ length bs"
proof (induction bs)
  case Nil
  then show ?case by simp
next
  case (Cons b bs)
  have "uint b < 256" using uint_bounded [of b] by simp
  moreover have "0 \<le> uint b" by simp
  ultimately show ?case using Cons by simp
qed


lemma BN_le_le_bytes: "BN_le (le_bytes n v) = v mod 256 ^ n"
proof (induction n arbitrary: v)
  case 0
  then show ?case by simp
next
  case (Suc n)
  have "v mod (256 * 256 ^ n) = v mod 256 + 256 * (v div 256 mod 256 ^ n)"
    by (simp add: zmod_zmult2_eq)
  then show ?case using Suc by (simp add: uint_byte_of_int)
qed


lemma BN_be_be_bytes: "BN_be (be_bytes n v) = v mod 256 ^ n"
  by (simp add: be_bytes_def BN_be_rev BN_le_le_bytes)

lemma BN_be_bounds: "0 \<le> BN_be bs \<and> BN_be bs < 256 ^ length bs"
  using BN_le_bounds [of "rev bs"] by (simp add: BN_be_rev)

lemma byteLength_le: "n < 256 ^ k \<Longrightarrow> byteLength n \<le> k"
proof (induction k arbitrary: n)
  case 0
  then show ?case by (simp add: byteLength.simps)
next
  case (Suc k)
  from Suc.prems have "n div 256 < 256 ^ k"
    by (simp add: less_mult_imp_div_less mult.commute)
  then have "byteLength (n div 256) \<le> k" by (rule Suc.IH)
  then show ?case by (subst byteLength.simps) simp
qed

lemma new_PublicKey_short:
  assumes "length bs \<le> 32"
  shows "new_PublicKey bs = Inr (PublicKey (BN_be bs))"
proof -
  have b: "0 \<le> BN_be bs" "BN_be bs < 256 ^ length bs" using BN_be_bounds [of bs] by simp_all
  have "(256::int) ^ length bs \<le> 256 ^ 32"
    by (rule power_increasing) (use assms in simp_all)
  with b have "BN_be bs < 256 ^ 32" by linarith
  then have "nat \<bar>BN_be bs\<bar> < 256 ^ 32" using b(1) by (simp add: nat_less_iff)
  then have "byteLength (nat \<bar>BN_be bs\<bar>) \<le> 32" by (rule byteLength_le)
  then show ?thesis by (simp add: new_PublicKey_def Let_def)
qed

lemma length_subarray: "length (subarray buf s e) = min (e - s) (length buf - s)"
  by (simp add: subarray_def)

lemma new_PublicKey_subarray:
  "new_PublicKey (subarray buf off (off + 32)) = Inr (PublicKey (BN_be (subarray buf off (off + 32))))"
  by (rule new_PublicKey_short) (simp add: length_subarray)

lemmas POOL_STATE_LAYOUT =
  AMM_CONFIG_def POOL_CREATOR_def TOKEN_0_VAULT_def TOKEN_1_VAULT_def LP_MINT_def
  TOKEN_0_MINT_def TOKEN_1_MINT_def TOKEN_0_PROGRAM_def TOKEN_1_PROGRAM_def
  OBSERVATION_KEY_def AUTH_BUMP_def STATUS_def LP_MINT_DECIMALS_def MINT_0_DECIMALS_def
  MINT_1_DECIMALS_def LP_SUPPLY_def PROTOCOL_FEES_TOKEN_0_def PROTOCOL_FEES_TOKEN_1_def
  FUND_FEES_TOKEN_0_def FUND_FEES_TOKEN_1_def OPEN_TIME_def

lemma bufferCopy_append:
  assumes "length A = off" "length bs \<le> length rest"
  shows "bufferCopy bs (A @ rest) off = (A @ bs) @ drop (length bs) rest"
  using assms by (simp add: bufferCopy_def Let_def min_def)

lemma write_layout:
  assumes "length base = 637"
  shows "writePoolState ps base =
     take 8 base @ toBuffer (ammConfig ps) @ toBuffer (poolCreator ps)
     @ toBuffer (token0Vault ps) @ toBuffer (token1Vault ps) @ toBuffer (lpMint ps)
     @ toBuffer (token0Mint ps) @ toBuffer (token1Mint ps) @ toBuffer (token0Program ps)
     @ toBuffer (token1Program ps) @ toBuffer (observationKey ps)
     @ [byteOrZero (authBump ps), byteOrZero (status ps), byteOrZero (lpMintDecimals ps),
        byteOrZero (mint0Decimals ps), byteOrZero (mint1Decimals ps)]
     @ le_bytes 8 (lpSupply ps) @ le_bytes 8 (protocolFeesToken0 ps)
     @ le_bytes 8 (protocolFeesToken1 ps) @ le_bytes 8 (fundFeesToken0 ps)
     @ le_bytes 8 (fundFeesToken1 ps) @ le_bytes 8 (openTime ps)
     @ drop 381 base"
proof -
  have start: "writePoolState ps base = writePoolState ps (take 8 base @ drop 8 base)"
    by simp
  show ?thesis
    unfolding start
    unfolding writePoolState_def encodedFields_def POOL_STATE_LAYOUT
    using assms by (simp add: bufferCopy_append del: append_assoc append_take_drop_id)
qed

lemma encode_layout:
  "encodePoolState ps =
     replicate 8 0 @ toBuffer (ammConfig ps) @ toBuffer (poolCreator ps)
     @ toBuffer (token0Vault ps) @ toBuffer (token1Vault ps) @ toBuffer (lpMint ps)
     @ toBuffer (token0Mint ps) @ toBuffer (token1Mint ps) @ toBuffer (token0Program ps)
     @ toBuffer (token1Program ps) @ toBuffer (observationKey ps)
     @ [byteOrZero (authBump ps), byteOrZero (status ps), byteOrZero (lpMintDecimals ps),
        byteOrZero (mint0Decimals ps), byteOrZero (mint1Decimals ps)]
     @ le_bytes 8 (lpSupply ps) @ le_bytes 8 (protocolFeesToken0 ps)
     @ le_bytes 8 (protocolFeesToken1 ps) @ le_bytes 8 (fundFeesToken0 ps)
     @ le_bytes 8 (fundFeesToken1 ps) @ le_bytes 8 (openTime ps)
     @ replicate 256 0"
  unfolding encodePoolState_def by (simp add: write_layout)

lemma parsePoolState_Inr:
  "parsePoolState addr buf =
     Inr \<lparr> address = addr,
           ammConfig = PublicKey (BN_be (subarray buf AMM_CONFIG (AMM_CONFIG + 32))),
           poolCreator = PublicKey (BN_be (subarray buf POOL_CREATOR (POOL_CREATOR + 32))),
           token0Vault = PublicKey (BN_be (subarray buf TOKEN_0_VAULT (TOKEN_0_VAULT + 32))),
           token1Vault = PublicKey (BN_be (subarray buf TOKEN_1_VAULT (TOKEN_1_VAULT + 32))),
           lpMint = PublicKey (BN_be (subarray buf LP_MINT (LP_MINT + 32))),
           token0Mint = PublicKey (BN_be (subarray buf TOKEN_0_MINT (TOKEN_0_MINT + 32))),
           token1Mint = PublicKey (BN_be (subarray buf TOKEN_1_MINT (TOKEN_1_MINT + 32))),
           token0Program =
             PublicKey (BN_be (subarray buf TOKEN_0_PROGRAM (TOKEN_0_PROGRAM + 32))),
           token1Program =
             PublicKey (BN_be (subarray buf TOKEN_1_PROGRAM (TOKEN_1_PROGRAM + 32))),
           observationKey =
             PublicKey (BN_be (subarray buf OBSERVATION_KEY (OBSERVATION_KEY + 32))),
           authBump = byteAt buf AUTH_BUMP,
           status = byteAt buf STATUS,
           lpMintDecimals = byteAt buf LP_MINT_DECIMALS,
           mint0Decimals = byteAt buf MINT_0_DECIMALS,
           mint1Decimals = byteAt buf MINT_1_DECIMALS,
           lpSupply = BN_le (subarray buf LP_SUPPLY (LP_SUPPLY + 8)),
           protocolFeesToken0 =
             BN_le (subarray buf PROTOCOL_FEES_TOKEN_0 (PROTOCOL_FEES_TOKEN_0 + 8)),
           protocolFeesToken1 =
             BN_le (subarray buf PROTOCOL_FEES_TOKEN_1 (PROTOCOL_FEES_TOKEN_1 + 8)),
           fundFeesToken0 = BN_le (subarray buf FUND_FEES_TOKEN_0 (FUND_FEES_TOKEN_0 + 8)),
           fundFeesToken1 = BN_le (subarray buf FUND_FEES_TOKEN_1 (FUND_FEES_TOKEN_1 + 8)),
           openTime = BN_le (subarray buf OPEN_TIME (OPEN_TIME + 8)) \<rparr>"
  by (simp add: parsePoolState_def new_PublicKey_subarray)





subsection \<open>Quote arithmetic\<close>

lemma BN_div_nonneg: "0 \<le> a \<Longrightarrow> 0 < b \<Longrightarrow> BN_div a b = Inr (a div b)"
  by (simp add: BN_div_def sgn_if)

lemma BN_div_sign:
  assumes "BN_div a b = Inr q"
  shows "(0 \<le> a \<and> 0 \<le> b \<longrightarrow> 0 \<le> q) \<and> (0 \<le> a \<and> b \<le> 0 \<longrightarrow> q \<le> 0)"
  using assms
  by (auto simp: BN_div_def sgn_if pos_imp_zdiv_nonneg_iff split: if_splits)

lemma scale_down_le:
  fixes x k :: int
  assumes "0 \<le> x" "0 \<le> k" "k \<le> 10000"
  shows "x * k div 10000 \<le> x"
proof -
  have "x * k \<le> x * 10000" using assms by (simp add: mult_left_mono)
  then have "x * k div 10000 \<le> x * 10000 div 10000" by (rule zdiv_mono1) simp
  then show ?thesis by simp
qed

lemma applySlippage_le:
  assumes "0 \<le> out" "applySlippage out eff = Inr m" "0 \<le> eff"
  shows "m \<le> out"
proof (cases "eff \<le> 10000")
  case True
  with assms have "m = out * (10000 - eff) div 10000"
    by (auto simp: applySlippage_def BN_of_number_def BN_div_nonneg mult_nonneg_nonneg split: if_splits)
  then show ?thesis using scale_down_le [of out "10000 - eff"] assms True by simp
next
  case False
  from assms(2) obtain k where k: "BN_of_number (10000 - eff) = Inr k" "BN_div (out * k) 10000 = Inr m"
    by (auto simp: applySlippage_def bindE_eq_Inr)
  from k(1) False have "k < 0" by (auto simp: BN_of_number_def split: if_splits)
  then have "out * k \<le> 0" using assms(1) by (simp add: mult_nonneg_nonpos)
  with k(2) have "m \<le> 0"
    by (auto simp: BN_div_def sgn_if split: if_splits)
  then show ?thesis using assms(1) by simp
qed

lemma calculateSwapOutput_nonneg:
  assumes "0 \<le> a" "0 \<le> ir" "0 \<le> r" "feeBps \<le> 10000"
    and "calculateSwapOutput a ir r feeBps = Inr (out, impact)"
  shows "0 \<le> out"
proof -
  from assms(5) obtain fm af where
    fm: "BN_of_number (10000 - feeBps) = Inr fm" and
    af: "amountInAfterFee a fm = Inr af" and
    out: "BN_div (af * r) (ir + af) = Inr out"
    by (auto simp: calculateSwapOutput_def bindE_eq_Inr)
  from fm assms(4) have "0 \<le> fm" by (auto simp: BN_of_number_def split: if_splits)
  with af assms(1) have "0 \<le> af"
    using BN_div_sign [of "a * fm" 10000 af] by (simp add: amountInAfterFee_def)
  with out assms show ?thesis
    using BN_div_sign [of "af * r" "ir + af" out] by simp
qed

lemma effective_ge_500: "500 \<le> effectiveSlippageBps s ir"
  by (auto simp: effectiveSlippageBps_def conservativeSlippage_def)

lemma quoteAmounts_min_le:
  assumes "0 \<le> a" "0 \<le> ir" "0 \<le> r" "feeBps \<le> 10000"
    and "quoteAmounts a ir r feeBps slip = Inr (out, m, impact)"
  shows "m \<le> out"
proof -
  from assms(5) obtain impact' where
    c: "calculateSwapOutput a ir r feeBps = Inr (out, impact')" and
    s: "applySlippage out (effectiveSlippageBps slip ir) = Inr m"
    by (auto simp: quoteAmounts_def bindE_eq_Inr)
  have "0 \<le> out" using calculateSwapOutput_nonneg [OF assms(1-4) c] .
  then show ?thesis using applySlippage_le [OF _ s] effective_ge_500 [of slip ir] by simp
qed

lemma calculateSwapOutput_example: "calculateSwapOutput 10000 1000000 2000000 100 = Inr (19605, 99 / 100)"
  by (simp add: calculateSwapOutput_def BN_of_number_def amountInAfterFee_def BN_div_def BN_toNumber_def)

lemma effectiveSlippageBps_example: "effectiveSlippageBps 100 1000000 = 1500"
  by (simp add: effectiveSlippageBps_def conservativeSlippage_def isLowLiquidity_def)

lemma applySlippage_example: "applySlippage 19605 1500 = Inr 16664"
  by (simp add: applySlippage_def BN_of_number_def BN_div_def)

lemma quoteAmounts_example: "quoteAmounts 10000 1000000 2000000 100 100 = Inr (19605, 16664, 99 / 100)"
  by (simp add: quoteAmounts_def calculateSwapOutput_example effectiveSlippageBps_example
      applySlippage_example)

subsection \<open>Reading the reserves\<close>

lemma getVaultBalances_eq:
  "getVaultBalances conn ps s =
     (bindE (tokenAccountBalanceOf conn (rpc_log s) (token0Vault ps)) (\<lambda>b0.
      bindE (tokenAccountBalanceOf conn (rpc_log s @ [GetTokenAccountBalance (token0Vault ps)])
               (token1Vault ps)) (\<lambda>b1.
      Inr \<lparr> vault0Balance = int b0, vault1Balance = int b1 \<rparr>)),
      s\<lparr>rpc_log := rpc_log s @ [GetTokenAccountBalance (token0Vault ps),
                                   GetTokenAccountBalance (token1Vault ps)]\<rparr>)"
  by (simp add: getVaultBalances_def getTokenAccountBalance_def)

lemma getSwapQuote_Inr:
  assumes "getSwapQuote conn ps im om a slip s = (Inr q, s')"
  shows "\<exists>b0 b1.
    tokenAccountBalanceOf conn (rpc_log s) (token0Vault ps) = Inr b0
    \<and> tokenAccountBalanceOf conn (rpc_log s @ [GetTokenAccountBalance (token0Vault ps)])
       (token1Vault ps) = Inr b1
    \<and> quoteAmounts a (if im = token0Mint ps then int b0 else int b1)
       (if im = token0Mint ps then int b1 else int b0) 100 slip
     = Inr (amountOut q, minimumAmountOut q, priceImpact q)
    \<and> amountIn q = a \<and> inputMint q = im \<and> outputMint q = om"
  using assms
  by (auto simp: getSwapQuote_def bindIO_def liftE_def getVaultBalances_eq Let_def bindE_eq_Inr
      split: sum.splits prod.splits if_splits)

lemma getSwapQuote_demo:
  "fst (getSwapQuote (demoLedger RAYDIUM_CPMM_PROGRAM_ID) demoPool NATIVE_MINT demoToken 10000 100
        noEffects) =
     Inr \<lparr> amountIn = 10000, amountOut = 19605, minimumAmountOut = 16664,
           priceImpact = 99 / 100, inputMint = NATIVE_MINT, outputMint = demoToken \<rparr>"
  by (simp add: getSwapQuote_def bindIO_def liftE_def getVaultBalances_eq Let_def
      demoLedger_def demoPool_def noEffects_def quoteAmounts_example)

subsection \<open>The worked quote\<close>

text \<open>
  Claim C2, as amended. For an amount in of 10 000, an input reserve of 1 000 000, an output
  reserve of 2 000 000 and a fee of 100 basis points, the amount after the fee is 9 900 and
  the amount out is 19 605, the integer part of 9 900 * 2 000 000 / 1 009 900. With a
  requested slippage of 100 basis points the effective slippage is 1 500, the input reserve
  being below 100 000 000, and the minimum amount out is 16 664, the integer part of
  19 605 * 8 500 / 10 000. \<^verbatim>\<open>getSwapQuote\<close> returns these amounts on a ledger holding the
  two reserves.
\<close>

theorem quote_example:
  "amountInAfterFee 10000 (10000 - 100) = Inr 9900
   \<and> calculateSwapOutput 10000 1000000 2000000 100 = Inr (19605, 99 / 100)
   \<and> effectiveSlippageBps 100 1000000 = 1500
   \<and> quoteAmounts 10000 1000000 2000000 100 100 = Inr (19605, 16664, 99 / 100)
   \<and> fst (getSwapQuote (demoLedger RAYDIUM_CPMM_PROGRAM_ID) demoPool NATIVE_MINT demoToken
            10000 100 noEffects) =
       Inr \<lparr> amountIn = 10000, amountOut = 19605, minimumAmountOut = 16664,
             priceImpact = 99 / 100, inputMint = NATIVE_MINT, outputMint = demoToken \<rparr>"
  by (simp add: getSwapQuote_demo quoteAmounts_example calculateSwapOutput_example
      effectiveSlippageBps_example amountInAfterFee_def BN_div_def)

text \<open>
  The amounts stated in claim C2, 19 604 and 19 407, are not the ones computed.
\<close>

theorem quote_example_counterexample:
  "map_sum id fst (quoteAmounts 10000 1000000 2000000 100 100) \<noteq> Inr 19604
   \<and> map_sum id (fst \<circ> snd) (quoteAmounts 10000 1000000 2000000 100 100) \<noteq> Inr 19407"
  by (simp add: quoteAmounts_example)

subsection \<open>The slippage floor\<close>

lemma effectiveSlippageBps_eq:
  "effectiveSlippageBps slippageBps r =
     max slippageBps (if r < 100000000 then 1500 else 500)"
  by (simp add: effectiveSlippageBps_def conservativeSlippage_def isLowLiquidity_def)

lemma applySlippage_value:
  assumes "applySlippage out eff = Inr m"
  shows "m = sgn (out * (10000 - eff)) * (\<bar>out * (10000 - eff)\<bar> div 10000)"
  using assms
  by (auto simp: applySlippage_def BN_of_number_def BN_div_def split: if_splits)

lemma applySlippage_floor:
  assumes "0 \<le> out" "eff \<le> 10000" "applySlippage out eff = Inr m"
  shows "m = out * (10000 - eff) div 10000"
proof -
  define k where "k = out * (10000 - eff)"
  have "0 \<le> k" using assms(1,2) by (simp add: k_def)
  then have "sgn k * (\<bar>k\<bar> div 10000) = k div 10000"
    by (cases "k = 0") (simp_all add: sgn_if)
  with applySlippage_value [OF assms(3)] show ?thesis by (simp add: k_def)
qed

lemma quoteAmounts_Inr:
  assumes "quoteAmounts a r r' fee slip = Inr (out, m, impact)"
  shows "calculateSwapOutput a r r' fee = Inr (out, impact)
    \<and> applySlippage out (max slip (if r < 100000000 then 1500 else 500)) = Inr m"
  using assms by (auto simp: quoteAmounts_def bindE_eq_Inr effectiveSlippageBps_eq)

text \<open>
  Claim C3. The effective slippage is the larger of the requested slippage and the
  conservative floor, which is 1 500 basis points when the input reserve is below
  100 000 000 and 500 otherwise; so it is at least 1 500 for an input reserve below
  100 000 000. The minimum amount out of every quote is the amount out times 10 000 less
  this effective slippage, divided by 10 000 and truncated towards zero, which is the
  integer part for an amount out that is not negative and an effective slippage of at most
  10 000; both in the computation on given reserves and in \<^verbatim>\<open>getSwapQuote\<close>, where the
  input reserve is the balance of the vault on the input side.
\<close>

theorem effective_slippage_policy:
  "effectiveSlippageBps slippageBps inputReserve =
     max slippageBps (if inputReserve < 100000000 then 1500 else 500)
   \<and> (inputReserve < 100000000 \<longrightarrow> 1500 \<le> effectiveSlippageBps slippageBps inputReserve)
   \<and> (quoteAmounts a inputReserve outputReserve feeBps slippageBps = Inr (out, m, impact) \<longrightarrow>
        applySlippage out (max slippageBps (if inputReserve < 100000000 then 1500 else 500))
          = Inr m
        \<and> m = sgn (out * (10000 - max slippageBps
                                       (if inputReserve < 100000000 then 1500 else 500)))
              * (\<bar>out * (10000 - max slippageBps
                                    (if inputReserve < 100000000 then 1500 else 500))\<bar>
                 div 10000)
        \<and> (0 \<le> out
             \<and> max slippageBps (if inputReserve < 100000000 then 1500 else 500) \<le> 10000 \<longrightarrow>
             m = out * (10000 - max slippageBps
                                  (if inputReserve < 100000000 then 1500 else 500))
                 div 10000))
   \<and> (getSwapQuote conn ps im om a slippageBps s = (Inr q, s')
        \<and> tokenAccountBalanceOf conn (rpc_log s) (token0Vault ps) = Inr b0
        \<and> tokenAccountBalanceOf conn (rpc_log s @ [GetTokenAccountBalance (token0Vault ps)])
             (token1Vault ps) = Inr b1
        \<and> inputReserve = (if im = token0Mint ps then int b0 else int b1) \<longrightarrow>
        applySlippage (amountOut q)
          (max slippageBps (if inputReserve < 100000000 then 1500 else 500))
          = Inr (minimumAmountOut q)
        \<and> minimumAmountOut q =
            sgn (amountOut q * (10000 - max slippageBps
                                   (if inputReserve < 100000000 then 1500 else 500)))
            * (\<bar>amountOut q * (10000 - max slippageBps
                                    (if inputReserve < 100000000 then 1500 else 500))\<bar>
               div 10000)
        \<and> (0 \<le> a \<and> slippageBps \<le> 10000 \<longrightarrow>
             minimumAmountOut q =
               amountOut q * (10000 - max slippageBps
                                  (if inputReserve < 100000000 then 1500 else 500))
               div 10000))"
proof -
  let ?eff = "max slippageBps (if inputReserve < 100000000 then 1500 else 500)"
  have 1: "effectiveSlippageBps slippageBps inputReserve = ?eff"
    by (rule effectiveSlippageBps_eq)
  have 2: "inputReserve < 100000000 \<longrightarrow> 1500 \<le> effectiveSlippageBps slippageBps inputReserve"
    by (simp add: 1)
  have 3: "applySlippage out ?eff = Inr m
        \<and> m = sgn (out * (10000 - ?eff)) * (\<bar>out * (10000 - ?eff)\<bar> div 10000)
        \<and> (0 \<le> out \<and> ?eff \<le> 10000 \<longrightarrow> m = out * (10000 - ?eff) div 10000)"
    if h: "quoteAmounts a inputReserve outputReserve feeBps slippageBps = Inr (out, m, impact)"
  proof -
    from quoteAmounts_Inr [OF h] have s: "applySlippage out ?eff = Inr m" by simp
    from s applySlippage_value [OF s] applySlippage_floor [OF _ _ s] show ?thesis by blast
  qed
  have 4: "applySlippage (amountOut q) ?eff = Inr (minimumAmountOut q)
        \<and> minimumAmountOut q =
            sgn (amountOut q * (10000 - ?eff)) * (\<bar>amountOut q * (10000 - ?eff)\<bar> div 10000)
        \<and> (0 \<le> a \<and> slippageBps \<le> 10000 \<longrightarrow>
             minimumAmountOut q = amountOut q * (10000 - ?eff) div 10000)"
    if h: "getSwapQuote conn ps im om a slippageBps s = (Inr q, s')
        \<and> tokenAccountBalanceOf conn (rpc_log s) (token0Vault ps) = Inr b0
        \<and> tokenAccountBalanceOf conn (rpc_log s @ [GetTokenAccountBalance (token0Vault ps)])
             (token1Vault ps) = Inr b1
        \<and> inputReserve = (if im = token0Mint ps then int b0 else int b1)"
  proof -
    from h have g: "getSwapQuote conn ps im om a slippageBps s = (Inr q, s')" by simp
    from getSwapQuote_Inr [OF g] obtain c0 c1 where
      c: "tokenAccountBalanceOf conn (rpc_log s) (token0Vault ps) = Inr c0"
         "tokenAccountBalanceOf conn (rpc_log s @ [GetTokenAccountBalance (token0Vault ps)])
            (token1Vault ps) = Inr c1"
         "quoteAmounts a (if im = token0Mint ps then int c0 else int c1)
            (if im = token0Mint ps then int c1 else int c0) 100 slippageBps
          = Inr (amountOut q, minimumAmountOut q, priceImpact q)"
      by blast
    from c h have e: "c0 = b0" "c1 = b1" by simp_all
    from c(3) e h have qa:
      "quoteAmounts a inputReserve (if im = token0Mint ps then int b1 else int b0) 100
         slippageBps = Inr (amountOut q, minimumAmountOut q, priceImpact q)"
      by (cases "im = token0Mint ps") simp_all
    from quoteAmounts_Inr [OF qa] have
      co: "calculateSwapOutput a inputReserve (if im = token0Mint ps then int b1 else int b0)
             100 = Inr (amountOut q, priceImpact q)" and
      sl: "applySlippage (amountOut q) ?eff = Inr (minimumAmountOut q)"
      by simp_all
    have fl: "minimumAmountOut q = amountOut q * (10000 - ?eff) div 10000"
      if r: "0 \<le> a \<and> slippageBps \<le> 10000"
    proof -
      have ir: "0 \<le> inputReserve" using h by simp
      have "0 \<le> amountOut q"
        using calculateSwapOutput_nonneg [OF _ ir _ _ co] r by simp
      moreover have "?eff \<le> 10000" using r by simp
      ultimately show ?thesis using applySlippage_floor [OF _ _ sl] by blast
    qed
    from sl applySlippage_value [OF sl] fl show ?thesis by blast
  qed
  from 1 2 3 4 show ?thesis by blast
qed

text \<open>The quote of the worked example, with the requests it sends.\<close>

lemma getSwapQuote_demo_full:
  "getSwapQuote (demoLedger RAYDIUM_CPMM_PROGRAM_ID) demoPool NATIVE_MINT demoToken 10000 100
        noEffects =
     (Inr \<lparr> amountIn = 10000, amountOut = 19605, minimumAmountOut = 16664,
           priceImpact = 99 / 100, inputMint = NATIVE_MINT, outputMint = demoToken \<rparr>,
      \<lparr> rpc_log = [GetTokenAccountBalance (PublicKey 13), GetTokenAccountBalance (PublicKey 14)],
        keypairs = 0 \<rparr>)"
  by (simp add: getSwapQuote_def bindIO_def liftE_def getVaultBalances_eq Let_def
      demoLedger_def demoPool_def noEffects_def quoteAmounts_example)

lemma quoteAmounts_deep_example:
  "quoteAmounts 10000 1000000000 2000000000 100 100 = Inr (19799, 18809, 1 / 100)
   \<and> quoteAmounts 10000 1000000000 2000000000 100 2000 = Inr (19799, 15839, 1 / 100)"
  by (simp add: quoteAmounts_def calculateSwapOutput_def BN_of_number_def
      amountInAfterFee_def BN_div_def BN_toNumber_def effectiveSlippageBps_eq
      applySlippage_def)

text \<open>
  The policy at an input reserve of 1 000 000 and a requested slippage of 100, where the
  floor of 1 500 applies, in the computation and in the quote on the concrete ledger; and at
  an input reserve of 1 000 000 000, where a requested 100 is raised to the floor of 500 and
  a requested 2 000 is kept.
\<close>

theorem effective_slippage_policy_witness:
  "(1000000::int) < 100000000
   \<and> effectiveSlippageBps 100 1000000 = 1500
   \<and> quoteAmounts 10000 1000000 2000000 100 100 = Inr (19605, 16664, 99 / 100)
   \<and> applySlippage 19605 1500 = Inr 16664
   \<and> (16664::int) = 19605 * (10000 - 1500) div 10000
   \<and> fst (getSwapQuote (demoLedger RAYDIUM_CPMM_PROGRAM_ID) demoPool NATIVE_MINT demoToken
            10000 100 noEffects) = Inr demoQuote
   \<and> tokenAccountBalanceOf (demoLedger RAYDIUM_CPMM_PROGRAM_ID) (rpc_log noEffects)
        (token0Vault demoPool) = Inr 1000000
   \<and> minimumAmountOut demoQuote = amountOut demoQuote * (10000 - 1500) div 10000
   \<and> effectiveSlippageBps 100 1000000000 = 500
   \<and> quoteAmounts 10000 1000000000 2000000000 100 100 = Inr (19799, 18809, 1 / 100)
   \<and> (18809::int) = 19799 * (10000 - 500) div 10000
   \<and> effectiveSlippageBps 2000 1000000000 = 2000
   \<and> quoteAmounts 10000 1000000000 2000000000 100 2000 = Inr (19799, 15839, 1 / 100)
   \<and> (15839::int) = 19799 * (10000 - 2000) div 10000"
proof -
  have g: "getSwapQuote (demoLedger RAYDIUM_CPMM_PROGRAM_ID) demoPool NATIVE_MINT demoToken
            10000 100 noEffects = (Inr demoQuote,
      \<lparr> rpc_log = [GetTokenAccountBalance (PublicKey 13),
                    GetTokenAccountBalance (PublicKey 14)], keypairs = 0 \<rparr>)"
    by (simp add: getSwapQuote_demo_full demoQuote_def)
  have b0: "tokenAccountBalanceOf (demoLedger RAYDIUM_CPMM_PROGRAM_ID) (rpc_log noEffects)
        (token0Vault demoPool) = Inr 1000000"
    by (simp add: demoLedger_def demoPool_def)
  have b1: "tokenAccountBalanceOf (demoLedger RAYDIUM_CPMM_PROGRAM_ID)
        (rpc_log noEffects @ [GetTokenAccountBalance (token0Vault demoPool)])
        (token1Vault demoPool) = Inr 2000000"
    by (simp add: demoLedger_def demoPool_def)
  have r: "(1000000::int) = (if NATIVE_MINT = token0Mint demoPool then int 1000000
                              else int 2000000)"
    by (simp add: demoPool_def)
  note t = effective_slippage_policy [where slippageBps = 100 and inputReserve = 1000000
      and a = 10000 and outputReserve = 2000000 and feeBps = 100 and out = 19605
      and m = 16664 and impact = "99 / 100" and conn = "demoLedger RAYDIUM_CPMM_PROGRAM_ID"
      and ps = demoPool and im = NATIVE_MINT and om = demoToken and s = noEffects
      and q = demoQuote
      and s' = "\<lparr> rpc_log = [GetTokenAccountBalance (PublicKey 13),
                    GetTokenAccountBalance (PublicKey 14)], keypairs = 0 \<rparr>"
      and ?b0.0 = 1000000 and ?b1.0 = 2000000]
  note u = effective_slippage_policy [where slippageBps = 100 and inputReserve = 1000000000
      and a = 10000 and outputReserve = 2000000000 and feeBps = 100 and out = 19799
      and m = 18809 and impact = "1 / 100"]
  note v = effective_slippage_policy [where slippageBps = 2000 and inputReserve = 1000000000
      and a = 10000 and outputReserve = 2000000000 and feeBps = 100 and out = 19799
      and m = 15839 and impact = "1 / 100"]
  have p: "getSwapQuote (demoLedger RAYDIUM_CPMM_PROGRAM_ID) demoPool NATIVE_MINT demoToken
            10000 100 noEffects = (Inr demoQuote,
      \<lparr> rpc_log = [GetTokenAccountBalance (PublicKey 13),
                    GetTokenAccountBalance (PublicKey 14)], keypairs = 0 \<rparr>)
    \<and> tokenAccountBalanceOf (demoLedger RAYDIUM_CPMM_PROGRAM_ID) (rpc_log noEffects)
        (token0Vault demoPool) = Inr 1000000
    \<and> tokenAccountBalanceOf (demoLedger RAYDIUM_CPMM_PROGRAM_ID)
        (rpc_log noEffects @ [GetTokenAccountBalance (token0Vault demoPool)])
        (token1Vault demoPool) = Inr 2000000
    \<and> (1000000::int) = (if NATIVE_MINT = token0Mint demoPool then int 1000000
                              else int 2000000)"
    by (intro conjI g b0 b1 r)
  note t1 = t [THEN conjunct1]
  note t3 = t [THEN conjunct2, THEN conjunct2, THEN conjunct1, THEN mp,
      OF quoteAmounts_example]
  note t4 = t [THEN conjunct2, THEN conjunct2, THEN conjunct2, THEN mp, OF p]
  note u1 = u [THEN conjunct1]
  note u3 = u [THEN conjunct2, THEN conjunct2, THEN conjunct1, THEN mp,
      OF quoteAmounts_deep_example [THEN conjunct1]]
  note v1 = v [THEN conjunct1]
  note v3 = v [THEN conjunct2, THEN conjunct2, THEN conjunct1, THEN mp,
      OF quoteAmounts_deep_example [THEN conjunct2]]
  from t4 have 1: "minimumAmountOut demoQuote = amountOut demoQuote * (10000 - 1500) div 10000"
    by simp
  from t1 have 2: "effectiveSlippageBps 100 1000000 = 1500" by simp
  from t3 have 3: "applySlippage 19605 1500 = Inr 16664" by simp
  from t3 have 4: "(16664::int) = 19605 * (10000 - 1500) div 10000" by simp
  from u1 have 5: "effectiveSlippageBps 100 1000000000 = 500" by simp
  from u3 have 6: "(18809::int) = 19799 * (10000 - 500) div 10000" by simp
  from v1 have 7: "effectiveSlippageBps 2000 1000000000 = 2000" by simp
  from v3 have 8: "(15839::int) = 19799 * (10000 - 2000) div 10000" by simp
  have 9: "fst (getSwapQuote (demoLedger RAYDIUM_CPMM_PROGRAM_ID) demoPool NATIVE_MINT demoToken
            10000 100 noEffects) = Inr demoQuote"
    by (simp add: g)
  have 0: "(1000000::int) < 100000000" by simp
  show ?thesis
    by (intro conjI 0 1 2 3 4 5 6 7 8 9 b0 quoteAmounts_example
        quoteAmounts_deep_example [THEN conjunct1] quoteAmounts_deep_example [THEN conjunct2])
qed

subsection \<open>The minimum never exceeds the amount out\<close>

text \<open>
  Claim C4. Amounts and reserves are unsigned integers. For every amount in that is not
  negative and every requested slippage in \<open>[0, 10000)\<close>: on reserves that are not negative
  and with a fee in \<open>[0, 10000)\<close>, a quote that is computed has a minimum amount out that is
  at most its amount out; and so has every quote that \<^verbatim>\<open>getSwapQuote\<close> returns, whose
  reserves are balances read from the ledger and whose fee is 100.
\<close>

theorem minimum_le_amountOut:
  assumes "0 \<le> a" and "0 \<le> slippageBps" and "slippageBps < 10000"
  shows "(0 \<le> inputReserve \<and> 0 \<le> outputReserve \<and> 0 \<le> feeBps \<and> feeBps < 10000
          \<and> quoteAmounts a inputReserve outputReserve feeBps slippageBps = Inr (out, m, impact)
          \<longrightarrow> m \<le> out)
       \<and> (getSwapQuote conn ps im om a slippageBps s = (Inr q, s')
          \<longrightarrow> minimumAmountOut q \<le> amountOut q)"
proof (intro conjI impI)
  assume h: "0 \<le> inputReserve \<and> 0 \<le> outputReserve \<and> 0 \<le> feeBps \<and> feeBps < 10000
          \<and> quoteAmounts a inputReserve outputReserve feeBps slippageBps = Inr (out, m, impact)"
  then show "m \<le> out"
    using quoteAmounts_min_le [of a inputReserve outputReserve feeBps slippageBps out m impact]
      assms(1) by simp
next
  assume g: "getSwapQuote conn ps im om a slippageBps s = (Inr q, s')"
  from getSwapQuote_Inr [OF g] obtain b0 b1 where
    "quoteAmounts a (if im = token0Mint ps then int b0 else int b1)
       (if im = token0Mint ps then int b1 else int b0) 100 slippageBps
     = Inr (amountOut q, minimumAmountOut q, priceImpact q)"
    by blast
  then show "minimumAmountOut q \<le> amountOut q"
    using quoteAmounts_min_le [of a "if im = token0Mint ps then int b0 else int b1"
        "if im = token0Mint ps then int b1 else int b0" 100 slippageBps
        "amountOut q" "minimumAmountOut q" "priceImpact q"] assms(1)
    by simp
qed

theorem minimum_le_amountOut_witness:
  "quoteAmounts 10000 1000000 2000000 100 100 = Inr (19605, 16664, 99 / 100)
   \<and> (16664::int) \<le> 19605
   \<and> minimumAmountOut \<lparr> amountIn = 10000, amountOut = 19605, minimumAmountOut = 16664,
           priceImpact = 99 / 100, inputMint = NATIVE_MINT, outputMint = demoToken \<rparr>
     \<le> amountOut \<lparr> amountIn = 10000, amountOut = 19605, minimumAmountOut = 16664,
           priceImpact = 99 / 100, inputMint = NATIVE_MINT, outputMint = demoToken \<rparr>"
  using minimum_le_amountOut [of 10000 100 1000000 2000000 100 19605 16664 "99 / 100"
      "demoLedger RAYDIUM_CPMM_PROGRAM_ID" demoPool NATIVE_MINT demoToken noEffects
      "\<lparr> amountIn = 10000, amountOut = 19605, minimumAmountOut = 16664,
           priceImpact = 99 / 100, inputMint = NATIVE_MINT, outputMint = demoToken \<rparr>"
      "\<lparr> rpc_log = [GetTokenAccountBalance (PublicKey 13), GetTokenAccountBalance (PublicKey 14)],
        keypairs = 0 \<rparr>"]
  by (simp add: quoteAmounts_example getSwapQuote_demo_full)

subsection \<open>Decoding a short buffer\<close>

lemma BN_be_Nil [simp]: "BN_be [] = 0"
  by (simp add: BN_be_def)

text \<open>
  Claim C6, as amended. For every address and every byte buffer, of whatever length, the
  decoder returns a pool state and never fails: it has no length check, and neither the
  address constructor nor the integer reader refuses a slice that the end of the buffer cut
  short. Every field is read from its own slot: the ten addresses from the 32-byte slots at
  8, 40, 72, 104, 136, 168, 200, 232, 264 and 296, big-endian; the five one-byte fields
  from 328 to 332; the six integers from the 8-byte slots at 333, 341, 349, 357, 365 and
  373, little-endian. A slot holds the bytes of its range that the buffer has, in their
  order; an address or integer whose slot starts at or beyond the end of the buffer is zero,
  and a one-byte field there is undefined.
\<close>

theorem parsePoolState_never_fails:
  "parsePoolState addr buf =
     Inr \<lparr> address = addr,
           ammConfig = PublicKey (BN_be (subarray buf 8 40)),
           poolCreator = PublicKey (BN_be (subarray buf 40 72)),
           token0Vault = PublicKey (BN_be (subarray buf 72 104)),
           token1Vault = PublicKey (BN_be (subarray buf 104 136)),
           lpMint = PublicKey (BN_be (subarray buf 136 168)),
           token0Mint = PublicKey (BN_be (subarray buf 168 200)),
           token1Mint = PublicKey (BN_be (subarray buf 200 232)),
           token0Program = PublicKey (BN_be (subarray buf 232 264)),
           token1Program = PublicKey (BN_be (subarray buf 264 296)),
           observationKey = PublicKey (BN_be (subarray buf 296 328)),
           authBump = byteAt buf 328,
           status = byteAt buf 329,
           lpMintDecimals = byteAt buf 330,
           mint0Decimals = byteAt buf 331,
           mint1Decimals = byteAt buf 332,
           lpSupply = BN_le (subarray buf 333 341),
           protocolFeesToken0 = BN_le (subarray buf 341 349),
           protocolFeesToken1 = BN_le (subarray buf 349 357),
           fundFeesToken0 = BN_le (subarray buf 357 365),
           fundFeesToken1 = BN_le (subarray buf 365 373),
           openTime = BN_le (subarray buf 373 381) \<rparr>
   \<and> (\<forall>e. parsePoolState addr buf \<noteq> Inl e)
   \<and> (\<forall>off fin. length (subarray buf off fin) = min (fin - off) (length buf - off)
         \<and> (\<forall>i < min (fin - off) (length buf - off).
               subarray buf off fin ! i = buf ! (off + i)))
   \<and> (\<forall>off fin. length buf \<le> off \<longrightarrow>
         BN_be (subarray buf off fin) = 0 \<and> BN_le (subarray buf off fin) = 0
         \<and> byteAt buf off = None)
   \<and> (\<forall>i < length buf. byteAt buf i = Some (buf ! i))"
  apply (intro conjI)
  subgoal by (simp add: parsePoolState_Inr POOL_STATE_LAYOUT)
  subgoal by (simp add: parsePoolState_Inr)
  subgoal by (auto simp: subarray_def min.commute)
  subgoal by (simp add: subarray_def byteAt_def)
  subgoal by (simp add: byteAt_def)
  done

text \<open>
  On a buffer of nine bytes: the slot at 8 holds the one byte the buffer has there, the
  slots at 40 and 333 hold none, and the byte at 328 is undefined.
\<close>

theorem parsePoolState_never_fails_witness:
  "(0::nat) < min (40 - 8) (length [0, 0, 0, 0, 0, 0, 0, 0, 7 :: byte] - 8)
   \<and> subarray [0, 0, 0, 0, 0, 0, 0, 0, 7] 8 40 = [7]
   \<and> length [0, 0, 0, 0, 0, 0, 0, 0, 7 :: byte] \<le> 40
   \<and> BN_be (subarray [0, 0, 0, 0, 0, 0, 0, 0, 7] 40 72) = 0
   \<and> BN_le (subarray [0, 0, 0, 0, 0, 0, 0, 0, 7] 333 341) = 0
   \<and> byteAt [0, 0, 0, 0, 0, 0, 0, 0, 7] 328 = None
   \<and> (8::nat) < length [0, 0, 0, 0, 0, 0, 0, 0, 7 :: byte]
   \<and> byteAt [0, 0, 0, 0, 0, 0, 0, 0, 7] 8 = Some 7
   \<and> (\<exists>ps. parsePoolState demoPoolAddress [0, 0, 0, 0, 0, 0, 0, 0, 7] = Inr ps
           \<and> ammConfig ps = PublicKey 7 \<and> poolCreator ps = PublicKey 0
           \<and> lpSupply ps = 0 \<and> authBump ps = None)"
proof -
  note t = parsePoolState_never_fails [of demoPoolAddress "[0, 0, 0, 0, 0, 0, 0, 0, 7]"]
  note p = t [THEN conjunct1]
  note sl = t [THEN conjunct2, THEN conjunct2, THEN conjunct1]
  note z = t [THEN conjunct2, THEN conjunct2, THEN conjunct2, THEN conjunct1]
  note b = t [THEN conjunct2, THEN conjunct2, THEN conjunct2, THEN conjunct2]
  have l: "length (subarray [0, 0, 0, 0, 0, 0, 0, 0, 7 :: byte] 8 40)
      = min (40 - 8) (length [0, 0, 0, 0, 0, 0, 0, 0, 7 :: byte] - 8)"
    using sl by blast
  have "(0::nat) < min (40 - 8) (length [0, 0, 0, 0, 0, 0, 0, 0, 7 :: byte] - 8) \<longrightarrow>
      subarray [0, 0, 0, 0, 0, 0, 0, 0, 7 :: byte] 8 40 ! 0
      = [0, 0, 0, 0, 0, 0, 0, 0, 7 :: byte] ! (8 + 0)"
    using sl by blast
  then have n: "subarray [0, 0, 0, 0, 0, 0, 0, 0, 7 :: byte] 8 40 ! 0 = 7"
    by simp
  from l n have 1: "subarray [0, 0, 0, 0, 0, 0, 0, 0, 7 :: byte] 8 40 = [7]"
    by (cases "subarray [0, 0, 0, 0, 0, 0, 0, 0, 7 :: byte] 8 40") simp_all
  have "length [0, 0, 0, 0, 0, 0, 0, 0, 7 :: byte] \<le> 40 \<longrightarrow>
      BN_be (subarray [0, 0, 0, 0, 0, 0, 0, 0, 7 :: byte] 40 72) = 0"
    using z by blast
  then have 2: "BN_be (subarray [0, 0, 0, 0, 0, 0, 0, 0, 7 :: byte] 40 72) = 0"
    by simp
  have "length [0, 0, 0, 0, 0, 0, 0, 0, 7 :: byte] \<le> 333 \<longrightarrow>
      BN_le (subarray [0, 0, 0, 0, 0, 0, 0, 0, 7 :: byte] 333 341) = 0"
    using z by blast
  then have 3: "BN_le (subarray [0, 0, 0, 0, 0, 0, 0, 0, 7 :: byte] 333 341) = 0"
    by simp
  have "length [0, 0, 0, 0, 0, 0, 0, 0, 7 :: byte] \<le> 328 \<longrightarrow>
      byteAt [0, 0, 0, 0, 0, 0, 0, 0, 7 :: byte] 328 = None"
    using z by blast
  then have 4: "byteAt [0, 0, 0, 0, 0, 0, 0, 0, 7 :: byte] 328 = None"
    by simp
  have "(8::nat) < length [0, 0, 0, 0, 0, 0, 0, 0, 7 :: byte] \<longrightarrow>
      byteAt [0, 0, 0, 0, 0, 0, 0, 0, 7 :: byte] 8 = Some ([0, 0, 0, 0, 0, 0, 0, 0, 7] ! 8)"
    using b by blast
  then have 5: "byteAt [0, 0, 0, 0, 0, 0, 0, 0, 7 :: byte] 8 = Some 7"
    by simp
  have 6: "\<exists>ps. parsePoolState demoPoolAddress [0, 0, 0, 0, 0, 0, 0, 0, 7] = Inr ps
           \<and> ammConfig ps = PublicKey 7 \<and> poolCreator ps = PublicKey 0
           \<and> lpSupply ps = 0 \<and> authBump ps = None"
    using p 1 2 3 4 by (simp add: BN_be_def)
  from 1 2 3 4 5 6 show ?thesis by simp
qed

text \<open>
  A buffer of nine bytes, shorter than the layout, decodes to a pool state: no error.
\<close>

theorem parsePoolState_short_counterexample:
  "parsePoolState demoPoolAddress [0, 0, 0, 0, 0, 0, 0, 0, 7] =
     Inr \<lparr> address = demoPoolAddress,
           ammConfig = PublicKey 7, poolCreator = PublicKey 0, token0Vault = PublicKey 0,
           token1Vault = PublicKey 0, lpMint = PublicKey 0, token0Mint = PublicKey 0,
           token1Mint = PublicKey 0, token0Program = PublicKey 0, token1Program = PublicKey 0,
           observationKey = PublicKey 0,
           authBump = None, status = None, lpMintDecimals = None, mint0Decimals = None,
           mint1Decimals = None,
           lpSupply = 0, protocolFeesToken0 = 0, protocolFeesToken1 = 0, fundFeesToken0 = 0,
           fundFeesToken1 = 0, openTime = 0 \<rparr>"
  by (simp add: parsePoolState_Inr POOL_STATE_LAYOUT subarray_def byteAt_def BN_be_def)

subsection \<open>Decoding and re-encoding\<close>








subsection \<open>The payload of the swap instruction\<close>

lemma byte_eqI: "x mod 256 = y mod 256 \<Longrightarrow> (word_of_int x :: byte) = word_of_int y"
  by (simp add: word_of_int_eq_iff take_bit_eq_mod)

lemma byte_mod [simp]: "(word_of_int (x mod 256) :: byte) = word_of_int x"
  by (rule byte_eqI) simp

lemma shift_mod:
  fixes v m :: int
  assumes "0 < m"
  shows "v mod (256 * m) div 256 = v div 256 mod m"
proof -
  have "v mod (256 * m) = 256 * (v div 256 mod m) + v mod 256"
    using assms by (simp add: zmod_zmult2_eq)
  moreover have "0 \<le> v mod 256" "v mod 256 < 256" by simp_all
  ultimately show ?thesis by simp
qed

lemma bytes_of_word32:
  fixes w v :: int
  assumes "w = v mod 4294967296"
  shows "w mod 256 = v mod 256
    \<and> w div 256 mod 256 = v div 256 mod 256
    \<and> w div 256 div 256 mod 256 = v div 256 div 256 mod 256
    \<and> w div 256 div 256 div 256 mod 256 = v div 256 div 256 div 256 mod 256"
proof -
  have n: "(4294967296::int) = 256 * 16777216" "(16777216::int) = 256 * 65536"
    "(65536::int) = 256 * 256" by simp_all
  have s1: "w div 256 = v div 256 mod 16777216"
    unfolding assms n(1) by (rule shift_mod) simp
  have s2: "w div 256 div 256 = v div 256 div 256 mod 65536"
    unfolding s1 n(2) by (rule shift_mod) simp
  have s3: "w div 256 div 256 div 256 = v div 256 div 256 div 256 mod 256"
    unfolding s2 n(3) by (rule shift_mod) simp
  have c: "x mod (256 * k) mod 256 = x mod 256" for x k :: int
    by (rule mod_mod_cancel) simp
  have "w mod 256 = v mod 256" unfolding assms n(1) by (rule c)
  moreover have "w div 256 mod 256 = v div 256 mod 256" unfolding s1 n(2) by (rule c)
  moreover have "w div 256 div 256 mod 256 = v div 256 div 256 mod 256"
    unfolding s2 n(3) by (rule c)
  moreover have "w div 256 div 256 div 256 mod 256 = v div 256 div 256 div 256 mod 256"
    unfolding s3 by (rule mod_mod_trivial)
  ultimately show ?thesis by blast
qed

lemma word32_bytes:
  fixes w v :: int
  assumes "w = v mod 4294967296"
  shows "[word_of_int w, word_of_int (w div 256), word_of_int (w div 256 div 256),
          word_of_int (w div 256 div 256 div 256)] = (le_bytes 4 v :: buffer)"
proof -
  have e: "le_bytes 4 v = [word_of_int (v mod 256), word_of_int (v div 256 mod 256),
      word_of_int (v div 256 div 256 mod 256),
      word_of_int (v div 256 div 256 div 256 mod 256)]"
    by (simp add: numeral_eq_Suc)
  show ?thesis
    unfolding e using bytes_of_word32 [OF assms] by (auto intro!: byte_eqI)
qed

lemma le_bytes_add: "le_bytes (m + n) v = le_bytes m v @ le_bytes n (v div 256 ^ m)"
proof (induction m arbitrary: v)
  case 0
  then show ?case by simp
next
  case (Suc m)
  have "v div 256 div 256 ^ m = v div (256 * 256 ^ m)"
    by (simp add: zdiv_zmult2_eq)
  then show ?case using Suc by simp
qed

lemma write32LE_cons:
  assumes "length A = off"
  shows "write32LE (A @ y0 # y1 # y2 # y3 # ys) off w =
     A @ [word_of_int w, word_of_int (w div 256), word_of_int (w div 256 div 256),
       word_of_int (w div 256 div 256 div 256)] @ ys"
  using assms by (simp add: write32LE_def list_update_append)

lemma writeBigUInt64LE_cons:
  assumes "0 \<le> v" "v < 2 ^ 64" "length A = off"
  shows "writeBigUInt64LE (A @ y0 # y1 # y2 # y3 # y4 # y5 # y6 # y7 # ys) v off =
           Inr (A @ le_bytes 8 v @ ys)"
proof -
  have lo: "write32LE (A @ y0 # y1 # y2 # y3 # y4 # y5 # y6 # y7 # ys) off (v mod 2 ^ 32)
        = (A @ le_bytes 4 v) @ y4 # y5 # y6 # y7 # ys"
    using write32LE_cons [OF assms(3), of y0 y1 y2 y3 "y4 # y5 # y6 # y7 # ys" "v mod 2 ^ 32"]
      word32_bytes [of "v mod 2 ^ 32" v]
    by simp
  have hi: "write32LE ((A @ le_bytes 4 v) @ y4 # y5 # y6 # y7 # ys) (off + 4)
              (v div 2 ^ 32 mod 2 ^ 32)
        = (A @ le_bytes 4 v) @ le_bytes 4 (v div 2 ^ 32) @ ys"
    using write32LE_cons [of "A @ le_bytes 4 v" "off + 4" y4 y5 y6 y7 ys
        "v div 2 ^ 32 mod 2 ^ 32"]
      word32_bytes [of "v div 2 ^ 32 mod 2 ^ 32" "v div 2 ^ 32"] assms(3)
    by simp
  have "le_bytes (4 + 4) v = le_bytes 4 v @ le_bytes 4 (v div 256 ^ 4)"
    by (rule le_bytes_add)
  then have j: "le_bytes 8 v = le_bytes 4 v @ le_bytes 4 (v div 2 ^ 32)" by simp
  have "writeBigUInt64LE (A @ y0 # y1 # y2 # y3 # y4 # y5 # y6 # y7 # ys) v off
        = Inr (write32LE (write32LE (A @ y0 # y1 # y2 # y3 # y4 # y5 # y6 # y7 # ys) off
                 (v mod 2 ^ 32)) (off + 4) (v div 2 ^ 32 mod 2 ^ 32))"
    using assms by (simp add: writeBigUInt64LE_def)
  then show ?thesis unfolding lo hi j by simp
qed

lemma writeBigUInt64LE_range:
  "v < 0 \<or> 2 ^ 64 \<le> v \<Longrightarrow> writeBigUInt64LE buf v off = Inl ERR_OUT_OF_RANGE"
  by (auto simp: writeBigUInt64LE_def)

lemma writeBigUInt64LE_Inl:
  "writeBigUInt64LE buf v off = Inl e \<Longrightarrow> e = ERR_OUT_OF_RANGE"
  by (auto simp: writeBigUInt64LE_def split: if_splits)

lemma swap_data0:
  "bufferCopy SWAP_BASE_INPUT_DISCRIMINATOR (replicate 24 0) 0 =
     SWAP_BASE_INPUT_DISCRIMINATOR @ [0, 0, 0, 0, 0, 0, 0, 0, 0, 0, 0, 0, 0, 0, 0, 0]"
  by (simp add: bufferCopy_def SWAP_BASE_INPUT_DISCRIMINATOR_def numeral_eq_Suc)

lemma length_DISCRIMINATOR: "length SWAP_BASE_INPUT_DISCRIMINATOR = 8"
  by (simp add: SWAP_BASE_INPUT_DISCRIMINATOR_def)

lemma swap_data:
  assumes "0 \<le> a" "a < 2 ^ 64" "0 \<le> m" "m < 2 ^ 64"
  shows "bindE (writeBigUInt64LE
            (bufferCopy SWAP_BASE_INPUT_DISCRIMINATOR (replicate 24 0) 0) a 8) (\<lambda>data1.
         bindE (writeBigUInt64LE data1 m 16) f)
       = f (SWAP_BASE_INPUT_DISCRIMINATOR @ le_bytes 8 a @ le_bytes 8 m)"
proof -
  have 1: "writeBigUInt64LE
      (SWAP_BASE_INPUT_DISCRIMINATOR @ [0, 0, 0, 0, 0, 0, 0, 0, 0, 0, 0, 0, 0, 0, 0, 0]) a 8
      = Inr (SWAP_BASE_INPUT_DISCRIMINATOR @ le_bytes 8 a @ [0, 0, 0, 0, 0, 0, 0, 0])"
    by (rule writeBigUInt64LE_cons [OF assms(1,2) length_DISCRIMINATOR])
  have 2: "writeBigUInt64LE
      ((SWAP_BASE_INPUT_DISCRIMINATOR @ le_bytes 8 a) @ [0, 0, 0, 0, 0, 0, 0, 0]) m 16
      = Inr ((SWAP_BASE_INPUT_DISCRIMINATOR @ le_bytes 8 a) @ le_bytes 8 m @ [])"
    by (rule writeBigUInt64LE_cons [OF assms(3,4)]) (simp add: length_DISCRIMINATOR)
  show ?thesis unfolding swap_data0 1 using 2 by simp
qed

lemma swap_data_range:
  assumes "a < 0 \<or> 2 ^ 64 \<le> a \<or> m < 0 \<or> 2 ^ 64 \<le> m"
  shows "bindE (writeBigUInt64LE buf a 8) (\<lambda>data1. bindE (writeBigUInt64LE data1 m 16) f)
       = Inl ERR_OUT_OF_RANGE"
proof (cases "a < 0 \<or> 2 ^ 64 \<le> a")
  case True
  then show ?thesis by (simp add: writeBigUInt64LE_range)
next
  case False
  with assms have "m < 0 \<or> 2 ^ 64 \<le> m" by blast
  then show ?thesis
    by (cases "writeBigUInt64LE buf a 8")
      (auto simp: writeBigUInt64LE_range dest: writeBigUInt64LE_Inl)
qed

lemma buildSwapInstruction_Inr:
  assumes "0 \<le> a" "a < 2 ^ 64" "0 \<le> m" "m < 2 ^ 64"
  shows "buildSwapInstruction ps payer ita ota im om itp otp a m =
     Inr \<lparr> programId = RAYDIUM_CPMM_PROGRAM_ID,
           keys =
             [\<lparr> pubkey = payer, isSigner = True, isWritable = True \<rparr>,
              \<lparr> pubkey = RAYDIUM_CPMM_AUTHORITY, isSigner = False, isWritable = False \<rparr>,
              \<lparr> pubkey = ammConfig ps, isSigner = False, isWritable = False \<rparr>,
              \<lparr> pubkey = address ps, isSigner = False, isWritable = True \<rparr>,
              \<lparr> pubkey = ita, isSigner = False, isWritable = True \<rparr>,
              \<lparr> pubkey = ota, isSigner = False, isWritable = True \<rparr>,
              \<lparr> pubkey = (if im = token0Mint ps then token0Vault ps else token1Vault ps),
                isSigner = False, isWritable = True \<rparr>,
              \<lparr> pubkey = (if im = token0Mint ps then token1Vault ps else token0Vault ps),
                isSigner = False, isWritable = True \<rparr>,
              \<lparr> pubkey = itp, isSigner = False, isWritable = False \<rparr>,
              \<lparr> pubkey = otp, isSigner = False, isWritable = False \<rparr>,
              \<lparr> pubkey = im, isSigner = False, isWritable = False \<rparr>,
              \<lparr> pubkey = om, isSigner = False, isWritable = False \<rparr>,
              \<lparr> pubkey = observationKey ps, isSigner = False, isWritable = True \<rparr>],
           TransactionInstruction.data =
             SWAP_BASE_INPUT_DISCRIMINATOR @ le_bytes 8 a @ le_bytes 8 m \<rparr>"
  unfolding buildSwapInstruction_def Let_def swap_data [OF assms] by simp

lemma buildSwapInstruction_Inl:
  assumes "a < 0 \<or> 2 ^ 64 \<le> a \<or> m < 0 \<or> 2 ^ 64 \<le> m"
  shows "buildSwapInstruction ps payer ita ota im om itp otp a m = Inl ERR_OUT_OF_RANGE"
  unfolding buildSwapInstruction_def Let_def swap_data_range [OF assms] by simp

lemma le_bytes_8_10000: "le_bytes 8 10000 = [16, 39, 0, 0, 0, 0, 0, 0]"
  by (simp add: numeral_eq_Suc)

lemma le_bytes_8_16664: "le_bytes 8 16664 = [24, 65, 0, 0, 0, 0, 0, 0]"
  by (simp add: numeral_eq_Suc)

text \<open>
  Claim C1. Whatever the pool state, payer, token accounts, mints, token programs and
  amounts, an instruction that \<^verbatim>\<open>buildSwapInstruction\<close> returns has a payload of 24 bytes:
  the discriminator 143, 190, 90, 218, 196, 30, 51, 222, then the amount in and the minimum
  amount out, each as 8 little-endian bytes from which the amount is read back; and it has
  13 accounts in the order payer, pool authority, config, pool, input token account, output
  token account, input vault, output vault, input token program, output token program,
  input mint, output mint, observation, where the input vault is the first vault of the
  pool exactly when the input mint is its first mint, and the second otherwise. An
  instruction is returned for all amounts from 0 to \<open>2^64 - 1\<close>.
\<close>

theorem swap_instruction_layout:
  "(0 \<le> a \<and> a < 2 ^ 64 \<and> 0 \<le> m \<and> m < 2 ^ 64 \<longrightarrow>
      (\<exists>ins. buildSwapInstruction ps payer ita ota im om itp otp a m = Inr ins))
   \<and> (\<forall>ins. buildSwapInstruction ps payer ita ota im om itp otp a m = Inr ins \<longrightarrow>
        TransactionInstruction.data ins =
          [143, 190, 90, 218, 196, 30, 51, 222] @ le_bytes 8 a @ le_bytes 8 m
        \<and> length (TransactionInstruction.data ins) = 24
        \<and> BN_le (subarray (TransactionInstruction.data ins) 8 16) = a
        \<and> BN_le (subarray (TransactionInstruction.data ins) 16 24) = m
        \<and> length (keys ins) = 13
        \<and> keys ins =
             [\<lparr> pubkey = payer, isSigner = True, isWritable = True \<rparr>,
              \<lparr> pubkey = RAYDIUM_CPMM_AUTHORITY, isSigner = False, isWritable = False \<rparr>,
              \<lparr> pubkey = ammConfig ps, isSigner = False, isWritable = False \<rparr>,
              \<lparr> pubkey = address ps, isSigner = False, isWritable = True \<rparr>,
              \<lparr> pubkey = ita, isSigner = False, isWritable = True \<rparr>,
              \<lparr> pubkey = ota, isSigner = False, isWritable = True \<rparr>,
              \<lparr> pubkey = (if im = token0Mint ps then token0Vault ps else token1Vault ps),
                isSigner = False, isWritable = True \<rparr>,
              \<lparr> pubkey = (if im = token0Mint ps then token1Vault ps else token0Vault ps),
                isSigner = False, isWritable = True \<rparr>,
              \<lparr> pubkey = itp, isSigner = False, isWritable = False \<rparr>,
              \<lparr> pubkey = otp, isSigner = False, isWritable = False \<rparr>,
              \<lparr> pubkey = im, isSigner = False, isWritable = False \<rparr>,
              \<lparr> pubkey = om, isSigner = False, isWritable = False \<rparr>,
              \<lparr> pubkey = observationKey ps, isSigner = False, isWritable = True \<rparr>])"
proof (cases "0 \<le> a \<and> a < 2 ^ 64 \<and> 0 \<le> m \<and> m < 2 ^ 64")
  case True
  then have r: "0 \<le> a" "a < 2 ^ 64" "0 \<le> m" "m < 2 ^ 64" by simp_all
  have da: "BN_le (le_bytes 8 a) = a" using r by (simp add: BN_le_le_bytes)
  have dm: "BN_le (le_bytes 8 m) = m" using r by (simp add: BN_le_le_bytes)
  show ?thesis
    unfolding buildSwapInstruction_Inr [OF r]
    by (simp add: SWAP_BASE_INPUT_DISCRIMINATOR_def subarray_def da dm)
next
  case False
  then have "a < 0 \<or> 2 ^ 64 \<le> a \<or> m < 0 \<or> 2 ^ 64 \<le> m" by auto
  then have "buildSwapInstruction ps payer ita ota im om itp otp a m = Inl ERR_OUT_OF_RANGE"
    by (rule buildSwapInstruction_Inl)
  with False show ?thesis by simp
qed

text \<open>The instruction for 10 000 in and at least 16 664 out on the concrete pool.\<close>

theorem swap_instruction_layout_witness:
  "(0::int) \<le> 10000 \<and> (10000::int) < 2 ^ 64 \<and> (0::int) \<le> 16664 \<and> (16664::int) < 2 ^ 64
   \<and> (\<exists>ins. buildSwapInstruction demoPool demoPayer (PublicKey 9001) (PublicKey 7778)
         NATIVE_MINT demoToken TOKEN_PROGRAM_ID TOKEN_PROGRAM_ID 10000 16664 = Inr ins
       \<and> TransactionInstruction.data ins =
           [143, 190, 90, 218, 196, 30, 51, 222, 16, 39, 0, 0, 0, 0, 0, 0,
            24, 65, 0, 0, 0, 0, 0, 0]
       \<and> map pubkey (keys ins) =
           [demoPayer, RAYDIUM_CPMM_AUTHORITY, PublicKey 11, demoPoolAddress, PublicKey 9001,
            PublicKey 7778, PublicKey 13, PublicKey 14, TOKEN_PROGRAM_ID, TOKEN_PROGRAM_ID,
            NATIVE_MINT, demoToken, PublicKey 20])"
  using swap_instruction_layout [of 10000 16664 demoPool demoPayer "PublicKey 9001"
      "PublicKey 7778" NATIVE_MINT demoToken TOKEN_PROGRAM_ID TOKEN_PROGRAM_ID]
  by (auto simp: le_bytes_8_10000 le_bytes_8_16664 demoPool_def)

subsection \<open>The concrete pool on the ledger\<close>

lemma parse_demo: "parsePoolState demoPoolAddress (encodePoolState demoPool) = Inr demoPool"
proof -
  have k: "BN_be (toBuffer (PublicKey n)) = n" if "0 \<le> n" "n < 256 ^ 32" for n
    using that by (simp add: toBuffer_def BN_be_be_bytes)
  have i: "BN_le (le_bytes 8 n) = n" if "0 \<le> n" "n < 256 ^ 8" for n
    using that by (simp add: BN_le_le_bytes)
  show ?thesis
    unfolding parsePoolState_Inr encode_layout POOL_STATE_LAYOUT
    by (simp add: subarray_def byteAt_def nth_append demoPool_def k i byteOrZero_def
        NATIVE_MINT_def TOKEN_PROGRAM_ID_def demoToken_def)
qed

subsection \<open>Lookup by address\<close>

lemma getPoolStateByAddress_eq:
  "getPoolStateByAddress conn addr s =
     ((case accountInfoAt conn (rpc_log s) addr of
         Inr (Some info) \<Rightarrow>
           if owner info = RAYDIUM_CPMM_PROGRAM_ID
           then (case parsePoolState addr (AccountInfo.data info) of
                   Inr ps \<Rightarrow> Some ps | Inl e \<Rightarrow> None)
           else None
       | _ \<Rightarrow> None),
      s\<lparr>rpc_log := rpc_log s @ [GetAccountInfo addr]\<rparr>)"
  by (simp add: getPoolStateByAddress_def getAccountInfo_def split: sum.splits option.splits)

text \<open>
  Claim C8, as amended. For every address, the lookup by address sends one request, an
  account read of that address. It returns a pool state exactly when the account exists, is
  owned by the swap program and decodes to that pool state. When no account exists, when the
  account has another owner and when the read fails, it returns the same \<^verbatim>\<open>null\<close>: the
  three cases are told apart only in the log, not by distinct errors.
\<close>

theorem pool_by_address:
  "snd (getPoolStateByAddress conn addr s) = s\<lparr>rpc_log := rpc_log s @ [GetAccountInfo addr]\<rparr>
   \<and> (fst (getPoolStateByAddress conn addr s) = Some ps \<longleftrightarrow>
        (\<exists>info. accountInfoAt conn (rpc_log s) addr = Inr (Some info)
           \<and> owner info = RAYDIUM_CPMM_PROGRAM_ID
           \<and> parsePoolState addr (AccountInfo.data info) = Inr ps))
   \<and> (accountInfoAt conn (rpc_log s) addr = Inr None \<longrightarrow>
        fst (getPoolStateByAddress conn addr s) = None)
   \<and> (\<forall>info. accountInfoAt conn (rpc_log s) addr = Inr (Some info)
          \<and> owner info \<noteq> RAYDIUM_CPMM_PROGRAM_ID \<longrightarrow>
        fst (getPoolStateByAddress conn addr s) = None)
   \<and> (\<forall>e. accountInfoAt conn (rpc_log s) addr = Inl e \<longrightarrow>
        fst (getPoolStateByAddress conn addr s) = None)"
  unfolding getPoolStateByAddress_eq
  by (auto split: sum.splits option.splits)

lemma program_ids_differ: "TOKEN_PROGRAM_ID \<noteq> RAYDIUM_CPMM_PROGRAM_ID"
  by (simp add: TOKEN_PROGRAM_ID_def RAYDIUM_CPMM_PROGRAM_ID_def)

lemma pool_by_address_demo:
  "getPoolStateByAddress (demoLedger RAYDIUM_CPMM_PROGRAM_ID) demoPoolAddress noEffects =
     (Some demoPool, \<lparr> rpc_log = [GetAccountInfo demoPoolAddress], keypairs = 0 \<rparr>)"
  unfolding getPoolStateByAddress_eq
  by (simp add: demoLedger_def noEffects_def parse_demo)

text \<open>
  The lookup of the concrete pool, of an address with no account, and of an account that the
  token program owns.
\<close>

theorem pool_by_address_witness:
  "getPoolStateByAddress (demoLedger RAYDIUM_CPMM_PROGRAM_ID) demoPoolAddress noEffects =
     (Some demoPool, \<lparr> rpc_log = [GetAccountInfo demoPoolAddress], keypairs = 0 \<rparr>)
   \<and> accountInfoAt emptyLedger (rpc_log noEffects) demoPoolAddress = Inr None
   \<and> fst (getPoolStateByAddress emptyLedger demoPoolAddress noEffects) = None
   \<and> accountInfoAt (demoLedger TOKEN_PROGRAM_ID) (rpc_log noEffects) demoPoolAddress =
       Inr (Some \<lparr> owner = TOKEN_PROGRAM_ID, data = encodePoolState demoPool \<rparr>)
   \<and> TOKEN_PROGRAM_ID \<noteq> RAYDIUM_CPMM_PROGRAM_ID
   \<and> fst (getPoolStateByAddress (demoLedger TOKEN_PROGRAM_ID) demoPoolAddress noEffects) = None"
proof -
  have b: "accountInfoAt emptyLedger (rpc_log noEffects) demoPoolAddress = Inr None"
    by (simp add: emptyLedger_def)
  have c: "fst (getPoolStateByAddress emptyLedger demoPoolAddress noEffects) = None"
    using pool_by_address [of emptyLedger demoPoolAddress noEffects demoPool] b by blast
  have d: "accountInfoAt (demoLedger TOKEN_PROGRAM_ID) (rpc_log noEffects) demoPoolAddress =
       Inr (Some \<lparr> owner = TOKEN_PROGRAM_ID, data = encodePoolState demoPool \<rparr>)"
    by (simp add: demoLedger_def)
  have "owner \<lparr> owner = TOKEN_PROGRAM_ID, data = encodePoolState demoPool \<rparr>
          \<noteq> RAYDIUM_CPMM_PROGRAM_ID"
    using program_ids_differ by simp
  with d have e:
    "fst (getPoolStateByAddress (demoLedger TOKEN_PROGRAM_ID) demoPoolAddress noEffects) = None"
    using pool_by_address [of "demoLedger TOKEN_PROGRAM_ID" demoPoolAddress noEffects demoPool]
    by blast
  show ?thesis
    using pool_by_address_demo b c d e program_ids_differ by simp
qed

text \<open>
  A missing account and an account with a foreign owner give the same result: there is no
  ownership error distinct from not-found.
\<close>

theorem pool_by_address_counterexample:
  "accountInfoAt emptyLedger [] demoPoolAddress = Inr None
   \<and> accountInfoAt (demoLedger TOKEN_PROGRAM_ID) [] demoPoolAddress =
       Inr (Some \<lparr> owner = TOKEN_PROGRAM_ID, data = encodePoolState demoPool \<rparr>)
   \<and> TOKEN_PROGRAM_ID \<noteq> RAYDIUM_CPMM_PROGRAM_ID
   \<and> fst (getPoolStateByAddress emptyLedger demoPoolAddress noEffects) =
       fst (getPoolStateByAddress (demoLedger TOKEN_PROGRAM_ID) demoPoolAddress noEffects)"
  unfolding getPoolStateByAddress_eq
  by (simp add: emptyLedger_def demoLedger_def noEffects_def program_ids_differ)

subsection \<open>Sequencing\<close>

lemma bindIO_Inr_iff:
  "bindIO m f s = (Inr y, s') \<longleftrightarrow> (\<exists>x s1. m s = (Inr x, s1) \<and> f x s1 = (Inr y, s'))"
  by (auto simp: bindIO_def split: prod.splits sum.splits)

lemma returnIO_eq [simp]: "returnIO x s = (r, s') \<longleftrightarrow> r = Inr x \<and> s' = s"
  by (auto simp: returnIO_def)

lemma liftE_eq [simp]: "liftE m s = (r, s') \<longleftrightarrow> r = m \<and> s' = s"
  by (auto simp: liftE_def)

lemma throwIO_eq [simp]: "throwIO e s = (r, s') \<longleftrightarrow> r = Inl e \<and> s' = s"
  by (auto simp: throwIO_def)

lemma createTempWsolAccount_Inr:
  assumes "createTempWsolAccount ext payer a s = (Inr (acct, seed, ci, ii), s')"
  shows "\<bar>a\<bar> < 2 ^ 53
    \<and> seed = take 32 (generatedKeyBase58 ext (keypairs s))
    \<and> acct = createWithSeed ext payer seed TOKEN_PROGRAM_ID
    \<and> ci = CreateAccountWithSeed payer acct payer seed (js_add TOKEN_ACCOUNT_RENT a)
             ACCOUNT_SIZE TOKEN_PROGRAM_ID
    \<and> ii = InitializeAccount acct NATIVE_MINT payer TOKEN_PROGRAM_ID
    \<and> s' = s\<lparr>keypairs := Suc (keypairs s)\<rparr>"
  using assms
  by (auto simp: createTempWsolAccount_def Let_def BN_toNumber_def split: if_splits)

lemma createTempWsolAccount_unsafe:
  assumes "2 ^ 53 \<le> \<bar>a\<bar>"
  shows "createTempWsolAccount ext payer a s =
           (Inl BNAssertionFailed, s\<lparr>keypairs := Suc (keypairs s)\<rparr>)"
  using assms by (simp add: createTempWsolAccount_def Let_def BN_toNumber_def)

lemma handleInputTokenAccount_Inr:
  assumes "handleInputTokenAccount ext payer im itp a s = (Inr (acct, temp, setup), s')"
  shows "if im = NATIVE_MINT
         then \<bar>a\<bar> < 2 ^ 53 \<and> temp = Some acct
              \<and> (\<exists>seed. setup =
                    [CreateAccountWithSeed payer acct payer seed (js_add TOKEN_ACCOUNT_RENT a)
                       ACCOUNT_SIZE TOKEN_PROGRAM_ID,
                     InitializeAccount acct NATIVE_MINT payer TOKEN_PROGRAM_ID])
         else temp = None \<and> setup = []"
proof (cases "im = NATIVE_MINT")
  case True
  with assms obtain seed ci ii s1 where
    "createTempWsolAccount ext payer a s = (Inr (acct, seed, ci, ii), s1)"
    "temp = Some acct" "setup = [ci, ii]"
    by (auto simp: handleInputTokenAccount_def bindIO_Inr_iff)
  then show ?thesis using True createTempWsolAccount_Inr by fastforce
next
  case False
  with assms show ?thesis
    by (auto simp: handleInputTokenAccount_def bindIO_Inr_iff)
qed

lemma handleOutputTokenAccount_Inr:
  assumes "handleOutputTokenAccount ext payer om otp s = (Inr (acct, temp, setup), s')"
  shows "if om = NATIVE_MINT
         then temp = Some acct
              \<and> (\<exists>seed. setup =
                    [CreateAccountWithSeed payer acct payer seed (js_add TOKEN_ACCOUNT_RENT 0)
                       ACCOUNT_SIZE TOKEN_PROGRAM_ID,
                     InitializeAccount acct NATIVE_MINT payer TOKEN_PROGRAM_ID])
         else temp = None
              \<and> setup = [CreateAssociatedTokenAccountIdempotent payer acct payer om otp]"
proof (cases "om = NATIVE_MINT")
  case True
  with assms obtain seed ci ii s1 where
    "createTempWsolAccount ext payer 0 s = (Inr (acct, seed, ci, ii), s1)"
    "temp = Some acct" "setup = [ci, ii]"
    by (auto simp: handleOutputTokenAccount_def bindIO_Inr_iff)
  then show ?thesis using True createTempWsolAccount_Inr by fastforce
next
  case False
  with assms show ?thesis
    by (auto simp: handleOutputTokenAccount_def bindIO_Inr_iff)
qed

lemma bindIO_InrE:
  assumes "bindIO m f s = (Inr y, s')"
  obtains x s1 where "m s = (Inr x, s1)" "f x s1 = (Inr y, s')"
  using assms by (auto simp: bindIO_Inr_iff)

lemma createSwapTransaction_Inr:
  assumes "createSwapTransaction conn ext payer im om a slip pa s = (Inr (tx, q, ps), s')"
  shows "\<exists>s1 s2 s3 s4 s5 s6 itp otp ia ti isetup oa to osetup swapIx bh.
      getSwapQuote conn ps im om a slip s1 = (Inr q, s2)
    \<and> getTokenProgramForMint conn im s2 = (Inr itp, s3)
    \<and> getTokenProgramForMint conn om s3 = (Inr otp, s4)
    \<and> handleInputTokenAccount ext payer im itp a s4 = (Inr (ia, ti, isetup), s5)
    \<and> handleOutputTokenAccount ext payer om otp s5 = (Inr (oa, to, osetup), s6)
    \<and> buildSwapInstruction ps payer ia oa im om itp otp (amountIn q) (minimumAmountOut q)
        = Inr swapIx
    \<and> getLatestBlockhash conn s6 = (Inr bh, s')
    \<and> tx = \<lparr> payerKey = payer, recentBlockhash = bh,
             instructions =
               [SetComputeUnitLimit 300000, SetComputeUnitPrice 50000] @ isetup @ osetup
               @ [Swap swapIx] @ closeInstructions payer to @ closeInstructions payer ti \<rparr>"
proof -
  from assms obtain ps0 s1 where
    r1: "bindIO (getSwapQuote conn ps0 im om a slip) (\<lambda>quote.
     bindIO (getTokenProgramForMint conn im) (\<lambda>inputTokenProgram.
     bindIO (getTokenProgramForMint conn om) (\<lambda>outputTokenProgram.
     bindIO (handleInputTokenAccount ext payer im inputTokenProgram a)
       (\<lambda>(inputTokenAccount, tempWsolInputAccount, inputSetup).
     bindIO (handleOutputTokenAccount ext payer om outputTokenProgram)
       (\<lambda>(outputTokenAccount, tempWsolOutputAccount, outputSetup).
     bindIO (liftE (buildSwapInstruction ps0 payer inputTokenAccount outputTokenAccount
                      im om inputTokenProgram outputTokenProgram
                      (amountIn quote) (minimumAmountOut quote))) (\<lambda>swapInstruction.
     bindIO (getLatestBlockhash conn) (\<lambda>blockhash.
     returnIO
       (\<lparr> payerKey = payer,
           recentBlockhash = blockhash,
           instructions =
             [SetComputeUnitLimit 300000, SetComputeUnitPrice 50000]
             @ inputSetup @ outputSetup
             @ [Swap swapInstruction]
             @ closeInstructions payer tempWsolOutputAccount
             @ closeInstructions payer tempWsolInputAccount \<rparr>,
        quote, ps0)))))))) s1 = (Inr (tx, q, ps), s')"
    unfolding createSwapTransaction_def by (rule bindIO_InrE)
  from r1 obtain q0 s2 where
    g: "getSwapQuote conn ps0 im om a slip s1 = (Inr q0, s2)" and
    r2: "bindIO (getTokenProgramForMint conn im) (\<lambda>inputTokenProgram.
     bindIO (getTokenProgramForMint conn om) (\<lambda>outputTokenProgram.
     bindIO (handleInputTokenAccount ext payer im inputTokenProgram a)
       (\<lambda>(inputTokenAccount, tempWsolInputAccount, inputSetup).
     bindIO (handleOutputTokenAccount ext payer om outputTokenProgram)
       (\<lambda>(outputTokenAccount, tempWsolOutputAccount, outputSetup).
     bindIO (liftE (buildSwapInstruction ps0 payer inputTokenAccount outputTokenAccount
                      im om inputTokenProgram outputTokenProgram
                      (amountIn q0) (minimumAmountOut q0))) (\<lambda>swapInstruction.
     bindIO (getLatestBlockhash conn) (\<lambda>blockhash.
     returnIO
       (\<lparr> payerKey = payer,
           recentBlockhash = blockhash,
           instructions =
             [SetComputeUnitLimit 300000, SetComputeUnitPrice 50000]
             @ inputSetup @ outputSetup
             @ [Swap swapInstruction]
             @ closeInstructions payer tempWsolOutputAccount
             @ closeInstructions payer tempWsolInputAccount \<rparr>,
        q0, ps0))))))) s2 = (Inr (tx, q, ps), s')"
    by (rule bindIO_InrE)
  from r2 obtain itp s3 where
    p1: "getTokenProgramForMint conn im s2 = (Inr itp, s3)" and
    r3: "bindIO (getTokenProgramForMint conn om) (\<lambda>outputTokenProgram.
     bindIO (handleInputTokenAccount ext payer im itp a)
       (\<lambda>(inputTokenAccount, tempWsolInputAccount, inputSetup).
     bindIO (handleOutputTokenAccount ext payer om outputTokenProgram)
       (\<lambda>(outputTokenAccount, tempWsolOutputAccount, outputSetup).
     bindIO (liftE (buildSwapInstruction ps0 payer inputTokenAccount outputTokenAccount
                      im om itp outputTokenProgram
                      (amountIn q0) (minimumAmountOut q0))) (\<lambda>swapInstruction.
     bindIO (getLatestBlockhash conn) (\<lambda>blockhash.
     returnIO
       (\<lparr> payerKey = payer,
           recentBlockhash = blockhash,
           instructions =
             [SetComputeUnitLimit 300000, SetComputeUnitPrice 50000]
             @ inputSetup @ outputSetup
             @ [Swap swapInstruction]
             @ closeInstructions payer tempWsolOutputAccount
             @ closeInstructions payer tempWsolInputAccount \<rparr>,
        q0, ps0)))))) s3 = (Inr (tx, q, ps), s')"
    by (rule bindIO_InrE)
  from r3 obtain otp s4 where
    p2: "getTokenProgramForMint conn om s3 = (Inr otp, s4)" and
    r4: "bindIO (handleInputTokenAccount ext payer im itp a)
       (\<lambda>(inputTokenAccount, tempWsolInputAccount, inputSetup).
     bindIO (handleOutputTokenAccount ext payer om otp)
       (\<lambda>(outputTokenAccount, tempWsolOutputAccount, outputSetup).
     bindIO (liftE (buildSwapInstruction ps0 payer inputTokenAccount outputTokenAccount
                      im om itp otp
                      (amountIn q0) (minimumAmountOut q0))) (\<lambda>swapInstruction.
     bindIO (getLatestBlockhash conn) (\<lambda>blockhash.
     returnIO
       (\<lparr> payerKey = payer,
           recentBlockhash = blockhash,
           instructions =
             [SetComputeUnitLimit 300000, SetComputeUnitPrice 50000]
             @ inputSetup @ outputSetup
             @ [Swap swapInstruction]
             @ closeInstructions payer tempWsolOutputAccount
             @ closeInstructions payer tempWsolInputAccount \<rparr>,
        q0, ps0))))) s4 = (Inr (tx, q, ps), s')"
    by (rule bindIO_InrE)
  from r4 obtain x s5 where
    hi0: "handleInputTokenAccount ext payer im itp a s4 = (Inr x, s5)" and
    r5: "(case x of (inputTokenAccount, tempWsolInputAccount, inputSetup) \<Rightarrow>
     bindIO (handleOutputTokenAccount ext payer om otp)
       (\<lambda>(outputTokenAccount, tempWsolOutputAccount, outputSetup).
     bindIO (liftE (buildSwapInstruction ps0 payer inputTokenAccount outputTokenAccount
                      im om itp otp
                      (amountIn q0) (minimumAmountOut q0))) (\<lambda>swapInstruction.
     bindIO (getLatestBlockhash conn) (\<lambda>blockhash.
     returnIO
       (\<lparr> payerKey = payer,
           recentBlockhash = blockhash,
           instructions =
             [SetComputeUnitLimit 300000, SetComputeUnitPrice 50000]
             @ inputSetup @ outputSetup
             @ [Swap swapInstruction]
             @ closeInstructions payer tempWsolOutputAccount
             @ closeInstructions payer tempWsolInputAccount \<rparr>,
        q0, ps0))))) s5 = (Inr (tx, q, ps), s')"
    by (rule bindIO_InrE)
  obtain ia ti isetup where x: "x = (ia, ti, isetup)" by (cases x)
  from r5 x obtain y s6 where
    ho0: "handleOutputTokenAccount ext payer om otp s5 = (Inr y, s6)" and
    r6: "(case y of (outputTokenAccount, tempWsolOutputAccount, outputSetup) \<Rightarrow>
     bindIO (liftE (buildSwapInstruction ps0 payer ia outputTokenAccount
                      im om itp otp
                      (amountIn q0) (minimumAmountOut q0))) (\<lambda>swapInstruction.
     bindIO (getLatestBlockhash conn) (\<lambda>blockhash.
     returnIO
       (\<lparr> payerKey = payer,
           recentBlockhash = blockhash,
           instructions =
             [SetComputeUnitLimit 300000, SetComputeUnitPrice 50000]
             @ isetup @ outputSetup
             @ [Swap swapInstruction]
             @ closeInstructions payer tempWsolOutputAccount
             @ closeInstructions payer ti \<rparr>,
        q0, ps0)))) s6 = (Inr (tx, q, ps), s')"
    by (auto elim: bindIO_InrE)
  obtain oa to osetup where y: "y = (oa, to, osetup)" by (cases y)
  from r6 y obtain swapIx bh where
    b: "buildSwapInstruction ps0 payer ia oa im om itp otp (amountIn q0) (minimumAmountOut q0)
          = Inr swapIx" and
    h: "getLatestBlockhash conn s6 = (Inr bh, s')" and
    t: "tx = \<lparr> payerKey = payer, recentBlockhash = bh,
             instructions =
               [SetComputeUnitLimit 300000, SetComputeUnitPrice 50000] @ isetup @ osetup
               @ [Swap swapIx] @ closeInstructions payer to @ closeInstructions payer ti \<rparr>"
       "q0 = q" "ps0 = ps"
    by (auto simp: bindIO_Inr_iff dest: sym)
  from g p1 p2 hi0 ho0 b h t x y show ?thesis by blast
qed

subsection \<open>The swap on the concrete ledger\<close>

lemma demo_mints_differ: "demoToken \<noteq> NATIVE_MINT"
  by (simp add: demoToken_def NATIVE_MINT_def)

lemma getSwapQuote_demo_at:
  assumes "quoteAmounts a 1000000 2000000 100 slip = Inr (out, m, impact)"
  shows "getSwapQuote (demoLedger poolOwner) demoPool NATIVE_MINT demoToken a slip s =
     (Inr \<lparr> amountIn = a, amountOut = out, minimumAmountOut = m,
           priceImpact = impact, inputMint = NATIVE_MINT, outputMint = demoToken \<rparr>,
      s\<lparr>rpc_log := rpc_log s @ [GetTokenAccountBalance (PublicKey 13),
                                   GetTokenAccountBalance (PublicKey 14)]\<rparr>)"
  by (simp add: getSwapQuote_def bindIO_def liftE_def getVaultBalances_eq Let_def
      demoLedger_def demoPool_def assms)

lemma getPoolStateByAddress_demo_at:
  "getPoolStateByAddress (demoLedger RAYDIUM_CPMM_PROGRAM_ID) demoPoolAddress s =
     (Some demoPool, s\<lparr>rpc_log := rpc_log s @ [GetAccountInfo demoPoolAddress]\<rparr>)"
  unfolding getPoolStateByAddress_eq
  by (simp add: demoLedger_def parse_demo)

lemma getTokenProgramForMint_native:
  "getTokenProgramForMint conn NATIVE_MINT s = (Inr TOKEN_PROGRAM_ID, s)"
  by (simp add: getTokenProgramForMint_def returnIO_def)

lemma getTokenProgramForMint_demoToken:
  "getTokenProgramForMint (demoLedger poolOwner) demoToken s =
     (Inr TOKEN_PROGRAM_ID, s\<lparr>rpc_log := rpc_log s @ [GetAccountInfo demoToken]\<rparr>)"
  by (simp add: getTokenProgramForMint_def demo_mints_differ
      demo_mints_differ [unfolded demoToken_def] bindIO_def getAccountInfo_def
      demoLedger_def demoToken_def demoPoolAddress_def returnIO_def)

lemma getLatestBlockhash_demo:
  "getLatestBlockhash (demoLedger poolOwner) s =
     (Inr ''blockhash'', s\<lparr>rpc_log := rpc_log s @ [GetLatestBlockhash]\<rparr>)"
  by (simp add: getLatestBlockhash_def demoLedger_def)

lemma demo_swap_transaction:
  "createSwapTransaction (demoLedger RAYDIUM_CPMM_PROGRAM_ID) demoExternals demoPayer
     NATIVE_MINT demoToken 10000 100 (Some demoPoolAddress) noEffects =
   (Inr (demoTransaction, demoQuote, demoPool),
    \<lparr> rpc_log = [GetAccountInfo demoPoolAddress,
                  GetTokenAccountBalance (PublicKey 13),
                  GetTokenAccountBalance (PublicKey 14),
                  GetAccountInfo demoToken,
                  GetLatestBlockhash],
      keypairs = 1 \<rparr>)"
proof -
  have b: "buildSwapInstruction demoPool demoPayer (PublicKey 9001) (PublicKey 7778)
         NATIVE_MINT demoToken TOKEN_PROGRAM_ID TOKEN_PROGRAM_ID 10000 16664
         = Inr demoSwapInstruction"
    by (simp add: buildSwapInstruction_Inr le_bytes_8_10000 le_bytes_8_16664 demoPool_def
        SWAP_BASE_INPUT_DISCRIMINATOR_def demoSwapInstruction_def)
  have i: "handleInputTokenAccount demoExternals demoPayer NATIVE_MINT TOKEN_PROGRAM_ID 10000 s
      = (Inr (PublicKey 9001, Some (PublicKey 9001),
          [CreateAccountWithSeed demoPayer (PublicKey 9001) demoPayer
                ''FirstKeyFirstKeyFirstKeyFirstKey'' 2049280 165 TOKEN_PROGRAM_ID,
           InitializeAccount (PublicKey 9001) NATIVE_MINT demoPayer TOKEN_PROGRAM_ID]),
         s\<lparr>keypairs := Suc (keypairs s)\<rparr>)" if "keypairs s = 0" for s
    using that
    by (simp add: handleInputTokenAccount_def bindIO_def createTempWsolAccount_def Let_def
        BN_toNumber_def demoExternals_def js_add_def TOKEN_ACCOUNT_RENT_def ACCOUNT_SIZE_def
        returnIO_def)
  have o: "handleOutputTokenAccount demoExternals demoPayer demoToken TOKEN_PROGRAM_ID s
      = (Inr (PublicKey 7778, None,
          [CreateAssociatedTokenAccountIdempotent demoPayer (PublicKey 7778) demoPayer
                demoToken TOKEN_PROGRAM_ID]), s)" for s
    by (simp add: handleOutputTokenAccount_def demo_mints_differ
        demo_mints_differ [unfolded demoToken_def] bindIO_def liftE_def
        demoExternals_def returnIO_def demoToken_def)
  show ?thesis
    unfolding createSwapTransaction_def
    by (simp add: bindIO_def getPoolStateByAddress_demo_at
        getSwapQuote_demo_at [OF quoteAmounts_example] getTokenProgramForMint_native
        getTokenProgramForMint_demoToken i o b liftE_def getLatestBlockhash_demo returnIO_def
        closeInstructions_def noEffects_def demoTransaction_def demoQuote_def)
qed

subsection \<open>The order of the instructions\<close>

text \<open>
  Claim C5. In every transaction that \<^verbatim>\<open>createSwapTransaction\<close> returns, the instructions
  are, in this order: the compute-budget limit; the compute-budget price; when the input is
  the native asset, the creation and the initialisation of a temporary wrapped-native input
  account; when the output is the native asset, the creation and the initialisation of a
  temporary output account, and otherwise the idempotent creation of the associated token
  account of the output; the swap instruction, built on these accounts; the close of the
  temporary output account, if one was created; the close of the temporary input account,
  if one was created. So there are three instructions on temporary accounts for each native
  side, a creation and an initialisation before the swap and the close of the same account
  after it, and none when neither side is native.
\<close>

theorem instruction_order:
  assumes "createSwapTransaction conn ext payer im om a slip pa s = (Inr (tx, q, ps), s')"
  shows "\<exists>inAcc outAcc inSeed outSeed inProg outProg swapIx.
     instructions tx =
       [SetComputeUnitLimit 300000, SetComputeUnitPrice 50000]
       @ (if im = NATIVE_MINT
          then [CreateAccountWithSeed payer inAcc payer inSeed (js_add TOKEN_ACCOUNT_RENT a)
                  ACCOUNT_SIZE TOKEN_PROGRAM_ID,
                InitializeAccount inAcc NATIVE_MINT payer TOKEN_PROGRAM_ID]
          else [])
       @ (if om = NATIVE_MINT
          then [CreateAccountWithSeed payer outAcc payer outSeed (js_add TOKEN_ACCOUNT_RENT 0)
                  ACCOUNT_SIZE TOKEN_PROGRAM_ID,
                InitializeAccount outAcc NATIVE_MINT payer TOKEN_PROGRAM_ID]
          else [CreateAssociatedTokenAccountIdempotent payer outAcc payer om outProg])
       @ [Swap swapIx]
       @ (if om = NATIVE_MINT then [CloseAccount outAcc payer payer TOKEN_PROGRAM_ID] else [])
       @ (if im = NATIVE_MINT then [CloseAccount inAcc payer payer TOKEN_PROGRAM_ID] else [])
     \<and> buildSwapInstruction ps payer inAcc outAcc im om inProg outProg
           (amountIn q) (minimumAmountOut q) = Inr swapIx
     \<and> length (filter isEphemeral (instructions tx)) =
           (if im = NATIVE_MINT then 3 else 0) + (if om = NATIVE_MINT then 3 else 0)"
proof -
  from createSwapTransaction_Inr [OF assms] obtain s4 s5 s6 itp otp ia ti isetup oa to osetup
    swapIx bh where
    hi: "handleInputTokenAccount ext payer im itp a s4 = (Inr (ia, ti, isetup), s5)" and
    ho: "handleOutputTokenAccount ext payer om otp s5 = (Inr (oa, to, osetup), s6)" and
    b: "buildSwapInstruction ps payer ia oa im om itp otp (amountIn q) (minimumAmountOut q)
          = Inr swapIx" and
    t: "tx = \<lparr> payerKey = payer, recentBlockhash = bh,
             instructions =
               [SetComputeUnitLimit 300000, SetComputeUnitPrice 50000] @ isetup @ osetup
               @ [Swap swapIx] @ closeInstructions payer to @ closeInstructions payer ti \<rparr>"
    by blast
  from handleInputTokenAccount_Inr [OF hi] obtain inSeed where
    i: "im = NATIVE_MINT \<Longrightarrow> ti = Some ia"
       "im = NATIVE_MINT \<Longrightarrow> isetup =
          [CreateAccountWithSeed payer ia payer inSeed (js_add TOKEN_ACCOUNT_RENT a)
             ACCOUNT_SIZE TOKEN_PROGRAM_ID,
           InitializeAccount ia NATIVE_MINT payer TOKEN_PROGRAM_ID]"
       "im \<noteq> NATIVE_MINT \<Longrightarrow> ti = None \<and> isetup = []"
    by (cases "im = NATIVE_MINT") auto
  from handleOutputTokenAccount_Inr [OF ho] obtain outSeed where
    o: "om = NATIVE_MINT \<Longrightarrow> to = Some oa"
       "om = NATIVE_MINT \<Longrightarrow> osetup =
          [CreateAccountWithSeed payer oa payer outSeed (js_add TOKEN_ACCOUNT_RENT 0)
             ACCOUNT_SIZE TOKEN_PROGRAM_ID,
           InitializeAccount oa NATIVE_MINT payer TOKEN_PROGRAM_ID]"
       "om \<noteq> NATIVE_MINT \<Longrightarrow> to = None
          \<and> osetup = [CreateAssociatedTokenAccountIdempotent payer oa payer om otp]"
    by (cases "om = NATIVE_MINT") auto
  have l: "instructions tx =
       [SetComputeUnitLimit 300000, SetComputeUnitPrice 50000]
       @ (if im = NATIVE_MINT
          then [CreateAccountWithSeed payer ia payer inSeed (js_add TOKEN_ACCOUNT_RENT a)
                  ACCOUNT_SIZE TOKEN_PROGRAM_ID,
                InitializeAccount ia NATIVE_MINT payer TOKEN_PROGRAM_ID]
          else [])
       @ (if om = NATIVE_MINT
          then [CreateAccountWithSeed payer oa payer outSeed (js_add TOKEN_ACCOUNT_RENT 0)
                  ACCOUNT_SIZE TOKEN_PROGRAM_ID,
                InitializeAccount oa NATIVE_MINT payer TOKEN_PROGRAM_ID]
          else [CreateAssociatedTokenAccountIdempotent payer oa payer om otp])
       @ [Swap swapIx]
       @ (if om = NATIVE_MINT then [CloseAccount oa payer payer TOKEN_PROGRAM_ID] else [])
       @ (if im = NATIVE_MINT then [CloseAccount ia payer payer TOKEN_PROGRAM_ID] else [])"
    using i o by (simp add: t closeInstructions_def)
  have c: "length (filter isEphemeral (instructions tx)) =
           (if im = NATIVE_MINT then 3 else 0) + (if om = NATIVE_MINT then 3 else 0)"
    unfolding l by simp
  from l b c show ?thesis by blast
qed

text \<open>The transaction for a native input on the concrete ledger.\<close>

theorem instruction_order_witness:
  "createSwapTransaction (demoLedger RAYDIUM_CPMM_PROGRAM_ID) demoExternals demoPayer
     NATIVE_MINT demoToken 10000 100 (Some demoPoolAddress) noEffects
   = (Inr (demoTransaction, demoQuote, demoPool),
      \<lparr> rpc_log = [GetAccountInfo demoPoolAddress,
                  GetTokenAccountBalance (PublicKey 13),
                  GetTokenAccountBalance (PublicKey 14),
                  GetAccountInfo demoToken,
                  GetLatestBlockhash],
        keypairs = 1 \<rparr>)
   \<and> instructions demoTransaction =
         [SetComputeUnitLimit 300000,
          SetComputeUnitPrice 50000,
          CreateAccountWithSeed demoPayer (PublicKey 9001) demoPayer
            ''FirstKeyFirstKeyFirstKeyFirstKey'' 2049280 165 TOKEN_PROGRAM_ID,
          InitializeAccount (PublicKey 9001) NATIVE_MINT demoPayer TOKEN_PROGRAM_ID,
          CreateAssociatedTokenAccountIdempotent demoPayer (PublicKey 7778) demoPayer
            demoToken TOKEN_PROGRAM_ID,
          Swap demoSwapInstruction,
          CloseAccount (PublicKey 9001) demoPayer demoPayer TOKEN_PROGRAM_ID]
   \<and> length (filter isEphemeral (instructions demoTransaction)) = 3"
  using instruction_order [OF demo_swap_transaction] demo_swap_transaction
  by (simp add: demoTransaction_def demo_mints_differ)

subsection \<open>Native amounts beyond 53 bits\<close>

text \<open>
  Claim C10. The creation of a temporary wrapped-native account converts the amount to a
  JavaScript number, which fails for an amount of \<open>2^53\<close> or more. So for a native input and
  every amount in of at least \<open>2^53\<close>, \<^verbatim>\<open>createSwapTransaction\<close> throws and returns no
  transaction, whatever the ledger answers; while the swap instruction itself takes every
  amount below \<open>2^64\<close>.
\<close>

theorem unsafe_native_amount_throws:
  assumes "2 ^ 53 \<le> a"
  shows "(\<exists>e. fst (createSwapTransaction conn ext payer NATIVE_MINT om a slip pa s)
              = Inl e)
       \<and> fst (createTempWsolAccount ext payer a s) = Inl BNAssertionFailed
       \<and> (a < 2 ^ 64 \<longrightarrow>
            (\<exists>ins. buildSwapInstruction ps payer ita ota imx omx itp otp a 0 = Inr ins))"
proof -
  have "fst (createSwapTransaction conn ext payer NATIVE_MINT om a slip pa s) \<noteq> Inr r"
    for r
  proof
    assume "fst (createSwapTransaction conn ext payer NATIVE_MINT om a slip pa s) = Inr r"
    then obtain tx q ps' s' where
      "createSwapTransaction conn ext payer NATIVE_MINT om a slip pa s
         = (Inr (tx, q, ps'), s')"
      by (cases "createSwapTransaction conn ext payer NATIVE_MINT om a slip pa s";
          cases r) auto
    from createSwapTransaction_Inr [OF this] obtain s4 s5 itp' ia ti isetup where
      "handleInputTokenAccount ext payer NATIVE_MINT itp' a s4 = (Inr (ia, ti, isetup), s5)"
      by blast
    from handleInputTokenAccount_Inr [OF this] have "\<bar>a\<bar> < 2 ^ 53" by simp
    with assms show False by simp
  qed
  then have 1: "\<exists>e. fst (createSwapTransaction conn ext payer NATIVE_MINT om a slip pa s)
              = Inl e"
    by (cases "fst (createSwapTransaction conn ext payer NATIVE_MINT om a slip pa s)")
      auto
  have 2: "fst (createTempWsolAccount ext payer a s) = Inl BNAssertionFailed"
    using assms by (simp add: createTempWsolAccount_unsafe)
  have 3: "\<exists>ins. buildSwapInstruction ps payer ita ota imx omx itp otp a 0 = Inr ins"
    if "a < 2 ^ 64"
  proof -
    have "0 \<le> a" using assms by simp
    with that show ?thesis
      using buildSwapInstruction_Inr [of a 0 ps payer ita ota imx omx itp otp] by simp
  qed
  from 1 2 3 show ?thesis by blast
qed

text \<open>The swap of \<open>2^53\<close> atomic units on the concrete ledger.\<close>

lemma demo_unsafe_amount:
  "createSwapTransaction (demoLedger RAYDIUM_CPMM_PROGRAM_ID) demoExternals demoPayer
     NATIVE_MINT demoToken 9007199254740992 100 (Some demoPoolAddress) noEffects =
   (Inl BNAssertionFailed,
    \<lparr> rpc_log = [GetAccountInfo demoPoolAddress,
                  GetTokenAccountBalance (PublicKey 13),
                  GetTokenAccountBalance (PublicKey 14),
                  GetAccountInfo demoToken],
      keypairs = 1 \<rparr>)"
proof -
  have q: "quoteAmounts 9007199254740992 1000000 2000000 100 100 = Inr (1999999, 1699999, 100)"
    by (simp add: quoteAmounts_def calculateSwapOutput_def BN_of_number_def
        amountInAfterFee_def BN_div_def BN_toNumber_def effectiveSlippageBps_example
        applySlippage_def)
  have i: "handleInputTokenAccount demoExternals demoPayer NATIVE_MINT TOKEN_PROGRAM_ID
             9007199254740992 s
      = (Inl BNAssertionFailed, s\<lparr>keypairs := Suc (keypairs s)\<rparr>)" for s
    by (simp add: handleInputTokenAccount_def bindIO_def createTempWsolAccount_unsafe)
  show ?thesis
    unfolding createSwapTransaction_def
    by (simp add: bindIO_def getPoolStateByAddress_demo_at
        getSwapQuote_demo_at [OF q] getTokenProgramForMint_native
        getTokenProgramForMint_demoToken i noEffects_def)
qed

theorem unsafe_native_amount_throws_witness:
  "(2::int) ^ 53 \<le> 9007199254740992
   \<and> fst (createSwapTransaction (demoLedger RAYDIUM_CPMM_PROGRAM_ID) demoExternals demoPayer
         NATIVE_MINT demoToken 9007199254740992 100 (Some demoPoolAddress) noEffects)
       = Inl BNAssertionFailed
   \<and> fst (createTempWsolAccount demoExternals demoPayer 9007199254740992 noEffects)
       = Inl BNAssertionFailed
   \<and> (9007199254740992::int) < 2 ^ 64
   \<and> (\<exists>ins. buildSwapInstruction demoPool demoPayer (PublicKey 9001) (PublicKey 7778)
         NATIVE_MINT demoToken TOKEN_PROGRAM_ID TOKEN_PROGRAM_ID 9007199254740992 0
         = Inr ins)"
  using unsafe_native_amount_throws [where a = 9007199254740992
      and conn = "demoLedger RAYDIUM_CPMM_PROGRAM_ID" and ext = demoExternals
      and payer = demoPayer and om = demoToken and slip = 100 and pa = "Some demoPoolAddress"
      and s = noEffects and ps = demoPool and ita = "PublicKey 9001" and ota = "PublicKey 7778"
      and imx = NATIVE_MINT and omx = demoToken and itp = TOKEN_PROGRAM_ID
      and otp = TOKEN_PROGRAM_ID]
    demo_unsafe_amount
  by simp

subsection \<open>An input mint foreign to the pool\<close>

text \<open>
  Claim C9. Neither the quote nor the swap instruction checks that the input mint is one of
  the two mints of the pool. For every pool state and every input mint other than the first
  mint of the pool, the direction is second to first: the quote is computed with the balance
  of the second vault as input reserve and that of the first as output reserve, and fails
  only where reading the balances or the arithmetic does; the instruction has the second
  vault as input vault and the first as output vault, and is built for all amounts from 0
  to \<open>2^64 - 1\<close>.
\<close>

theorem foreign_mint_not_validated:
  assumes "im \<noteq> token0Mint ps"
  shows "getSwapQuote conn ps im om a slip s =
          (case getVaultBalances conn ps s of
             (Inl e, s') \<Rightarrow> (Inl e, s')
           | (Inr vb, s') \<Rightarrow>
               (case quoteAmounts a (vault1Balance vb) (vault0Balance vb) 100 slip of
                  Inl e \<Rightarrow> Inl e
                | Inr (out, m, impact) \<Rightarrow>
                    Inr \<lparr> amountIn = a, amountOut = out, minimumAmountOut = m,
                          priceImpact = impact, inputMint = im, outputMint = om \<rparr>,
                s'))
       \<and> (\<forall>ins. buildSwapInstruction ps payer ita ota im om itp otp a m = Inr ins \<longrightarrow>
             pubkey (keys ins ! 6) = token1Vault ps \<and> pubkey (keys ins ! 7) = token0Vault ps)
       \<and> (0 \<le> a \<and> a < 2 ^ 64 \<and> 0 \<le> m \<and> m < 2 ^ 64 \<longrightarrow>
             (\<exists>ins. buildSwapInstruction ps payer ita ota im om itp otp a m = Inr ins))"
proof -
  have 1: "getSwapQuote conn ps im om a slip s =
          (case getVaultBalances conn ps s of
             (Inl e, s') \<Rightarrow> (Inl e, s')
           | (Inr vb, s') \<Rightarrow>
               (case quoteAmounts a (vault1Balance vb) (vault0Balance vb) 100 slip of
                  Inl e \<Rightarrow> Inl e
                | Inr (out, m, impact) \<Rightarrow>
                    Inr \<lparr> amountIn = a, amountOut = out, minimumAmountOut = m,
                          priceImpact = impact, inputMint = im, outputMint = om \<rparr>,
                s'))"
    using assms
    by (simp add: getSwapQuote_def bindIO_def liftE_def Let_def bindE_def
        split: prod.splits sum.splits)
  have 2: "pubkey (keys ins ! 6) = token1Vault ps \<and> pubkey (keys ins ! 7) = token0Vault ps"
    if b: "buildSwapInstruction ps payer ita ota im om itp otp a m = Inr ins" for ins
  proof (cases "0 \<le> a \<and> a < 2 ^ 64 \<and> 0 \<le> m \<and> m < 2 ^ 64")
    case True
    then have "0 \<le> a" "a < 2 ^ 64" "0 \<le> m" "m < 2 ^ 64" by simp_all
    from buildSwapInstruction_Inr [OF this, of ps payer ita ota im om itp otp] b assms
    show ?thesis by auto
  next
    case False
    then have "a < 0 \<or> 2 ^ 64 \<le> a \<or> m < 0 \<or> 2 ^ 64 \<le> m" by auto
    from buildSwapInstruction_Inl [OF this, of ps payer ita ota im om itp otp] b
    show ?thesis by simp
  qed
  have 3: "\<exists>ins. buildSwapInstruction ps payer ita ota im om itp otp a m = Inr ins"
    if "0 \<le> a \<and> a < 2 ^ 64 \<and> 0 \<le> m \<and> m < 2 ^ 64"
    using that buildSwapInstruction_Inr [of a m ps payer ita ota im om itp otp] by simp
  from 1 2 3 show ?thesis by blast
qed

lemma quoteAmounts_reversed_example:
  "quoteAmounts 10000 2000000 1000000 100 100 = Inr (4925, 4186, 51 / 100)"
  by (simp add: quoteAmounts_def calculateSwapOutput_def BN_of_number_def
      amountInAfterFee_def BN_div_def BN_toNumber_def effectiveSlippageBps_def
      conservativeSlippage_def isLowLiquidity_def applySlippage_def)

lemma foreign_mint: "PublicKey 999 \<noteq> token0Mint demoPool \<and> PublicKey 999 \<noteq> token1Mint demoPool"
  by (simp add: demoPool_def NATIVE_MINT_def demoToken_def)

text \<open>A mint that is neither of the two mints of the concrete pool.\<close>

theorem foreign_mint_not_validated_witness:
  "PublicKey 999 \<noteq> token0Mint demoPool \<and> PublicKey 999 \<noteq> token1Mint demoPool
   \<and> fst (getSwapQuote (demoLedger RAYDIUM_CPMM_PROGRAM_ID) demoPool (PublicKey 999) demoToken
            10000 100 noEffects) =
       Inr \<lparr> amountIn = 10000, amountOut = 4925, minimumAmountOut = 4186,
             priceImpact = 51 / 100, inputMint = PublicKey 999, outputMint = demoToken \<rparr>
   \<and> (\<exists>ins. buildSwapInstruction demoPool demoPayer (PublicKey 9001) (PublicKey 7778)
               (PublicKey 999) demoToken TOKEN_PROGRAM_ID TOKEN_PROGRAM_ID 10000 4186 = Inr ins
           \<and> pubkey (keys ins ! 6) = PublicKey 14 \<and> pubkey (keys ins ! 7) = PublicKey 13)"
proof -
  have f: "PublicKey 999 \<noteq> token0Mint demoPool" using foreign_mint by simp
  note t = foreign_mint_not_validated [OF f, where conn = "demoLedger RAYDIUM_CPMM_PROGRAM_ID"
      and om = demoToken and a = 10000 and slip = 100 and s = noEffects and payer = demoPayer
      and ita = "PublicKey 9001" and ota = "PublicKey 7778" and itp = TOKEN_PROGRAM_ID
      and otp = TOKEN_PROGRAM_ID and m = 4186]
  have v: "getVaultBalances (demoLedger RAYDIUM_CPMM_PROGRAM_ID) demoPool noEffects =
      (Inr \<lparr> vault0Balance = 1000000, vault1Balance = 2000000 \<rparr>,
       \<lparr> rpc_log = [GetTokenAccountBalance (PublicKey 13),
                     GetTokenAccountBalance (PublicKey 14)], keypairs = 0 \<rparr>)"
    by (simp add: getVaultBalances_eq demoLedger_def demoPool_def noEffects_def)
  have q: "fst (getSwapQuote (demoLedger RAYDIUM_CPMM_PROGRAM_ID) demoPool (PublicKey 999)
             demoToken 10000 100 noEffects) =
       Inr \<lparr> amountIn = 10000, amountOut = 4925, minimumAmountOut = 4186,
             priceImpact = 51 / 100, inputMint = PublicKey 999, outputMint = demoToken \<rparr>"
    using t by (simp add: v quoteAmounts_reversed_example)
  from t obtain ins where
    i: "buildSwapInstruction demoPool demoPayer (PublicKey 9001) (PublicKey 7778)
               (PublicKey 999) demoToken TOKEN_PROGRAM_ID TOKEN_PROGRAM_ID 10000 4186 = Inr ins"
    by auto
  with t have "pubkey (keys ins ! 6) = token1Vault demoPool
      \<and> pubkey (keys ins ! 7) = token0Vault demoPool" by blast
  then have "pubkey (keys ins ! 6) = PublicKey 14 \<and> pubkey (keys ins ! 7) = PublicKey 13"
    by (simp add: demoPool_def)
  with i q foreign_mint show ?thesis by blast
qed

end
